theory Spec2Isabelle
  imports Main "HOL-Library.Word"
begin

unbundle bit_operations_syntax

section \<open>Machine words and register fields\<close>

type_synonym u8 = "8 word"
type_synonym u16 = "16 word"
type_synonym u32 = "32 word"
type_synonym u64 = "64 word"

text \<open>
  A register field is the pair (shift, length) that a \<^verbatim>\<open>FIELD(reg, name, shift, length)\<close>
  line declares.
\<close>

type_synonym field = "nat \<times> nat"

text \<open>
  Modelled from the spec: the generic bit helpers of the emulator (\<^verbatim>\<open>MAKE_64BIT_MASK\<close>,
  \<^verbatim>\<open>extract64\<close>, \<^verbatim>\<open>deposit64\<close>, \<^verbatim>\<open>extract32\<close>, \<^verbatim>\<open>FIELD_EX64\<close>,
  \<^verbatim>\<open>FIELD_DP64\<close>, \<^verbatim>\<open>FIELD_EX32\<close>) are not among the source files. They are the
  "explicit field accessors" of the bit-packed words: a read returns the \<open>length\<close>
  bits found at \<open>shift\<close>, a write replaces exactly those bits by the low bits of the
  new value. The all-ones word shifted right by \<open>64 - length\<close> is the mask of the
  low \<open>length\<close> bits.
\<close>

definition MAKE_64BIT_MASK :: "nat \<Rightarrow> nat \<Rightarrow> u64" where
  "MAKE_64BIT_MASK shift len = push_bit shift (drop_bit (64 - len) (NOT 0))"

definition extract64 :: "u64 \<Rightarrow> nat \<Rightarrow> nat \<Rightarrow> u64" where
  "extract64 v start len = drop_bit start v AND drop_bit (64 - len) (NOT 0)"

definition deposit64 :: "u64 \<Rightarrow> nat \<Rightarrow> nat \<Rightarrow> u64 \<Rightarrow> u64" where
  "deposit64 v start len fieldval =
     (let m = push_bit start (drop_bit (64 - len) (NOT 0))
      in (v AND NOT m) OR (push_bit start fieldval AND m))"

definition extract32 :: "u32 \<Rightarrow> nat \<Rightarrow> nat \<Rightarrow> u32" where
  "extract32 v start len = drop_bit start v AND drop_bit (32 - len) (NOT 0)"

definition FIELD_EX64 :: "u64 \<Rightarrow> field \<Rightarrow> u64" where
  "FIELD_EX64 storage f = extract64 storage (fst f) (snd f)"

definition FIELD_DP64 :: "u64 \<Rightarrow> field \<Rightarrow> u64 \<Rightarrow> u64" where
  "FIELD_DP64 storage f val = deposit64 storage (fst f) (snd f) val"

definition FIELD_EX32 :: "u32 \<Rightarrow> field \<Rightarrow> u32" where
  "FIELD_EX32 storage f = extract32 storage (fst f) (snd f)"

text \<open>The fields that cpu.h itself declares.\<close>

definition CPUCFG1_ARCH :: field where "CPUCFG1_ARCH = (0, 2)"
definition CPUCFG2_LVZ :: field where "CPUCFG2_LVZ = (10, 1)"
definition CPUCFG1_ARCH_LA64 :: u32 where "CPUCFG1_ARCH_LA64 = 2"

definition CSR_CRMD_PLV :: field where "CSR_CRMD_PLV = (0, 2)"
definition CSR_CRMD_IE :: field where "CSR_CRMD_IE = (2, 1)"
definition CSR_CRMD_DA :: field where "CSR_CRMD_DA = (3, 1)"
definition CSR_CRMD_PG :: field where "CSR_CRMD_PG = (4, 1)"

definition TLB_MISC_E :: field where "TLB_MISC_E = (0, 1)"
definition TLB_MISC_ASID :: field where "TLB_MISC_ASID = (1, 10)"
definition TLB_MISC_VPPN :: field where "TLB_MISC_VPPN = (13, 35)"
definition TLB_MISC_PS :: field where "TLB_MISC_PS = (48, 6)"
definition TLB_MISC_GID :: field where "TLB_MISC_GID = (54, 8)"

definition R_TLB_MISC_VPPN_SHIFT :: nat where "R_TLB_MISC_VPPN_SHIFT = fst TLB_MISC_VPPN"

definition LOONGARCH_STLB :: int where "LOONGARCH_STLB = 2048"
definition LOONGARCH_MTLB :: int where "LOONGARCH_MTLB = 64"
definition LOONGARCH_TLB_MAX :: int where "LOONGARCH_TLB_MAX = LOONGARCH_STLB + LOONGARCH_MTLB"

text \<open>\<^verbatim>\<open>EXCODE(code, subcode)\<close> is \<^verbatim>\<open>((subcode) << 6) | (code)\<close>.\<close>

definition EXCODE :: "u32 \<Rightarrow> u32 \<Rightarrow> u32" where
  "EXCODE code subcode = push_bit 6 subcode OR code"

definition EXCCODE_INE :: u32 where "EXCCODE_INE = EXCODE 13 0"
definition EXCCODE_IPE :: u32 where "EXCCODE_IPE = EXCODE 14 0"
definition EXCCODE_HVC :: u32 where "EXCCODE_HVC = EXCODE 22 0"

definition VMEXIT_MMIO :: u32 where "VMEXIT_MMIO = 1"
definition VMEXIT_INT :: u32 where "VMEXIT_INT = 2"
definition VMEXIT_TIMER :: u32 where "VMEXIT_TIMER = 3"
definition VMEXIT_IOCSR :: u32 where "VMEXIT_IOCSR = 4"
definition VMEXIT_CSRR :: u32 where "VMEXIT_CSRR = 5"
definition VMEXIT_CSRW :: u32 where "VMEXIT_CSRW = 6"
definition VMEXIT_CSRX :: u32 where "VMEXIT_CSRX = 7"
definition VMEXIT_HYPERCALL :: u32 where "VMEXIT_HYPERCALL = 8"
definition VMEXIT_CPUCFG :: u32 where "VMEXIT_CPUCFG = 9"
definition VMEXIT_TLB :: u32 where "VMEXIT_TLB = 10"
definition VMEXIT_CACHE :: u32 where "VMEXIT_CACHE = 11"

section \<open>The CSR header\<close>

text \<open>
  The names of the control registers. Both banks of the CPU state have one 64-bit
  slot per name; \<open>SAVE n\<close> and \<open>DMW n\<close> are the elements of the two register arrays.
\<close>

datatype (plugins only: ) csr_reg =
    CRMD | PRMD | EUEN | MISC | ECFG | ESTAT | ERA | BADV | BADI | EENTRY
  | TLBIDX | TLBEHI | TLBELO0 | TLBELO1 | ASID | PGDL | PGDH | PGD | PWCL | PWCH
  | STLBPS | RVACFG | CPUID | PRCFG1 | PRCFG2 | PRCFG3 | SAVE nat
  | TID | TCFG | TVAL | CNTC | TICLR | LLBCTL | IMPCTL1 | IMPCTL2
  | TLBRENTRY | TLBRBADV | TLBRERA | TLBRSAVE | TLBRELO0 | TLBRELO1 | TLBREHI | TLBRPRMD
  | MERRCTL | MERRINFO1 | MERRINFO2 | MERRENTRY | MERRERA | MERRSAVE | CTAG
  | DMW nat | DBG | DERA | DSAVE

text \<open>
  The header cpu-csr.h is not among the source files. What the helpers take from it is
  a parameter of the model: the position of each CSR field they read or write, the
  mask of a virtual address, and the numbering of the registers. \<open>csr_label n\<close> is the
  register whose \<^verbatim>\<open>LOONGARCH_CSR_*\<close> number is \<open>n\<close> (the \<^verbatim>\<open>case\<close> label that a
  \<^verbatim>\<open>switch (csr)\<close> selects), \<open>gcsr_label n\<close> the same for the \<^verbatim>\<open>LOONGARCH_GCSR_*\<close>
  numbers; \<open>None\<close> is a number no label has.
\<close>

record cpu_csr_h =
  CSR_GSTAT_VM :: field
  CSR_GSTAT_PVM :: field
  CSR_GSTAT_GID :: field
  CSR_GCFG_SITP :: field
  CSR_GCFG_SITO :: field
  CSR_GCFG_TITP :: field
  CSR_GCFG_TITO :: field
  CSR_PRMD_PPLV :: field
  CSR_PRMD_PIE :: field
  CSR_MISC_VA32 :: field
  CSR_ESTAT_ECODE :: field
  CSR_TLBIDX_INDEX :: field
  CSR_TLBIDX_PS :: field
  CSR_TLBIDX_NE :: field
  CSR_TLBEHI_32_VPPN :: field
  CSR_TLBEHI_64_VPPN :: field
  CSR_ASID_ASID :: field
  CSR_STLBPS_PS :: field
  CSR_TLBRERA_ISTLBR :: field
  CSR_TLBRERA_PC :: field
  CSR_TLBREHI_PS :: field
  CSR_TLBREHI_32_VPPN :: field
  CSR_TLBREHI_64_VPPN :: field
  CSR_TLBRPRMD_PPLV :: field
  CSR_TLBRPRMD_PIE :: field
  TLBENTRY_V :: field
  TLBENTRY_G :: field
  TARGET_VIRT_MASK :: u64
  csr_label :: "u32 \<Rightarrow> csr_reg option"
  gcsr_label :: "u32 \<Rightarrow> csr_reg option"

definition field_ok :: "field \<Rightarrow> bool" where
  "field_ok f = (0 < snd f \<and> fst f + snd f \<le> 64)"

definition fields_apart :: "field \<Rightarrow> field \<Rightarrow> bool" where
  "fields_apart f g = (fst f + snd f \<le> fst g \<or> fst g + snd g \<le> fst f)"

text \<open>
  What the helpers rely on in the header: every field lies inside its 64-bit
  register, two fields of one register do not overlap, VM and PVM are single bits,
  the saved privilege level and interrupt enable are as wide as the CRMD fields they
  save, and the exception code field holds a 6-bit code.
\<close>

definition gstat_ok :: "cpu_csr_h \<Rightarrow> bool" where
  "gstat_ok H = (field_ok (CSR_GSTAT_VM H) \<and> field_ok (CSR_GSTAT_PVM H) \<and>
     field_ok (CSR_GSTAT_GID H) \<and>
     snd (CSR_GSTAT_VM H) = 1 \<and> snd (CSR_GSTAT_PVM H) = 1 \<and>
     fields_apart (CSR_GSTAT_VM H) (CSR_GSTAT_PVM H) \<and>
     fields_apart (CSR_GSTAT_VM H) (CSR_GSTAT_GID H) \<and>
     fields_apart (CSR_GSTAT_PVM H) (CSR_GSTAT_GID H))"

definition prmd_ok :: "cpu_csr_h \<Rightarrow> bool" where
  "prmd_ok H = (field_ok (CSR_PRMD_PPLV H) \<and> field_ok (CSR_PRMD_PIE H) \<and>
     snd (CSR_PRMD_PPLV H) = 2 \<and> snd (CSR_PRMD_PIE H) = 1 \<and>
     fields_apart (CSR_PRMD_PPLV H) (CSR_PRMD_PIE H) \<and>
     field_ok (CSR_TLBRPRMD_PPLV H) \<and> field_ok (CSR_TLBRPRMD_PIE H) \<and>
     snd (CSR_TLBRPRMD_PPLV H) = 2 \<and> snd (CSR_TLBRPRMD_PIE H) = 1 \<and>
     fields_apart (CSR_TLBRPRMD_PPLV H) (CSR_TLBRPRMD_PIE H))"

definition estat_ok :: "cpu_csr_h \<Rightarrow> bool" where
  "estat_ok H = (field_ok (CSR_ESTAT_ECODE H) \<and> snd (CSR_ESTAT_ECODE H) = 6)"

section \<open>The CPU state\<close>

record LoongArchTLB =
  tlb_misc :: u64
  tlb_entry0 :: u64
  tlb_entry1 :: u64

record VMExitContext =
  fault_gpa :: u64
  fault_gva :: u64
  gid :: u8
  exit_reason :: u32
  access_type :: u32
  is_tlb_refill :: bool

text \<open>
  \<^verbatim>\<open>CPULoongArchState\<close>, restricted to what the control-register, TLB and
  virtualization helpers touch. The host registers \<^verbatim>\<open>CSR_<name>\<close> are \<open>CSR env name\<close>,
  the guest shadow registers \<^verbatim>\<open>GCSR_<name>\<close> are \<open>GCSR env name\<close>. The array
  \<^verbatim>\<open>tlb[LOONGARCH_TLB_MAX]\<close> is a function of the index; an access at an index
  outside the array is an outcome of its own (\<open>OutOfBounds\<close> below), never a read or
  write of \<open>tlb env\<close>.
\<close>

record CPULoongArchState =
  pc :: u64
  cpucfg :: "nat \<Rightarrow> u32"
  CSR :: "csr_reg \<Rightarrow> u64"
  CSR_GSTAT :: u64
  CSR_GCFG :: u64
  CSR_GINTC :: u64
  CSR_GCNTC :: u64
  GCSR :: "csr_reg \<Rightarrow> u64"
  CSR_GTLBC :: u64
  CSR_TRGP :: u64
  vm_exit_ctx :: VMExitContext
  lvz_enabled :: bool
  lladdr :: u64
  tlb :: "nat \<Rightarrow> LoongArchTLB"

text \<open>
  Modelled from the spec: \<^verbatim>\<open>do_raise_exception\<close> is not among the source files. It is
  the "raise exception" primitive: it hands the exception code to the exception pipeline
  and control does not come back to the helper that called it. A helper therefore ends
  in one of three ways: it returns a value (\<open>Ret\<close>), it raises an exception with the
  state it had built up to then (\<open>Raise\<close>), or it indexes the TLB array outside
  \<open>[0, LOONGARCH_TLB_MAX)\<close> (\<open>OutOfBounds\<close> with the index; what the C program does
  from there on is undefined).
\<close>

datatype 'a outcome =
    Ret 'a CPULoongArchState
  | Raise u32 CPULoongArchState
  | OutOfBounds int

definition do_raise_exception :: "CPULoongArchState \<Rightarrow> u32 \<Rightarrow> 'a outcome" where
  "do_raise_exception env exception = Raise exception env"

section \<open>Virtualization mode predicates (cpu.h)\<close>

definition has_lvz_capability :: "CPULoongArchState \<Rightarrow> bool" where
  "has_lvz_capability env = (FIELD_EX32 (cpucfg env 2) CPUCFG2_LVZ \<noteq> 0)"

definition is_guest_mode :: "cpu_csr_h \<Rightarrow> CPULoongArchState \<Rightarrow> bool" where
  "is_guest_mode H env =
     (has_lvz_capability env \<and> FIELD_EX64 (CSR_GSTAT env) (CSR_GSTAT_VM H) \<noteq> 0)"

definition get_guest_id :: "cpu_csr_h \<Rightarrow> CPULoongArchState \<Rightarrow> u8" where
  "get_guest_id H env = ucast (FIELD_EX64 (CSR_GSTAT env) (CSR_GSTAT_GID H))"

definition is_virtualization_mode_active :: "CPULoongArchState \<Rightarrow> bool" where
  "is_virtualization_mode_active env = (has_lvz_capability env \<and> lvz_enabled env)"

definition is_guest_execution_context :: "cpu_csr_h \<Rightarrow> CPULoongArchState \<Rightarrow> bool" where
  "is_guest_execution_context H env =
     (is_virtualization_mode_active env \<and> is_guest_mode H env)"

definition is_hypervisor_execution_context :: "cpu_csr_h \<Rightarrow> CPULoongArchState \<Rightarrow> bool" where
  "is_hypervisor_execution_context H env =
     (is_virtualization_mode_active env \<and> \<not> is_guest_mode H env)"

definition is_la64 :: "CPULoongArchState \<Rightarrow> bool" where
  "is_la64 env = (FIELD_EX32 (cpucfg env 1) CPUCFG1_ARCH = CPUCFG1_ARCH_LA64)"

definition is_va32 :: "cpu_csr_h \<Rightarrow> CPULoongArchState \<Rightarrow> bool" where
  "is_va32 H env =
     (let va32 = \<not> is_la64 env;
          plv = FIELD_EX64 (CSR env CRMD) CSR_CRMD_PLV
      in if 1 \<le> plv \<and> FIELD_EX64 (CSR env MISC) (CSR_MISC_VA32 H) AND push_bit (unat plv) 1 \<noteq> 0
         then True else va32)"

definition set_pc :: "cpu_csr_h \<Rightarrow> CPULoongArchState \<Rightarrow> u64 \<Rightarrow> CPULoongArchState" where
  "set_pc H env val =
     (if is_va32 H env then env\<lparr>pc := ucast (ucast val :: u32)\<rparr> else env\<lparr>pc := val\<rparr>)"

section \<open>The VM-exit controller (cpu_helper.c, op_helper.c)\<close>

definition helper_vm_exit_cpu :: "cpu_csr_h \<Rightarrow> CPULoongArchState \<Rightarrow> u32 \<Rightarrow> unit outcome" where
  "helper_vm_exit_cpu H env reason =
     (if \<not> is_guest_execution_context H env then Ret () env
      else
        let env1 = env\<lparr>vm_exit_ctx := (vm_exit_ctx env)\<lparr>exit_reason := reason\<rparr>\<rparr>;
            env2 = env1\<lparr>vm_exit_ctx := (vm_exit_ctx env1)\<lparr>fault_gva := pc env1\<rparr>\<rparr>;
            env3 = env2\<lparr>vm_exit_ctx := (vm_exit_ctx env2)\<lparr>fault_gpa := 0\<rparr>\<rparr>;
            env4 = env3\<lparr>vm_exit_ctx := (vm_exit_ctx env3)\<lparr>gid := get_guest_id H env3\<rparr>\<rparr>;
            env5 = env4\<lparr>vm_exit_ctx := (vm_exit_ctx env4)\<lparr>access_type := 0\<rparr>\<rparr>;
            env6 = env5\<lparr>vm_exit_ctx := (vm_exit_ctx env5)\<lparr>is_tlb_refill := False\<rparr>\<rparr>;
            vm_bit = FIELD_EX64 (CSR_GSTAT env6) (CSR_GSTAT_VM H);
            env7 = env6\<lparr>CSR_GSTAT := FIELD_DP64 (CSR_GSTAT env6) (CSR_GSTAT_PVM H) vm_bit\<rparr>;
            env8 = env7\<lparr>CSR_GSTAT := FIELD_DP64 (CSR_GSTAT env7) (CSR_GSTAT_VM H) 0\<rparr>;
            crmd = CSR env8 CRMD;
            guest_prmd = GCSR env8 PRMD;
            guest_prmd1 = FIELD_DP64 guest_prmd (CSR_PRMD_PPLV H) (FIELD_EX64 crmd CSR_CRMD_PLV);
            guest_prmd2 = FIELD_DP64 guest_prmd1 (CSR_PRMD_PIE H) (FIELD_EX64 crmd CSR_CRMD_IE);
            env9 = env8\<lparr>GCSR := (GCSR env8)(PRMD := guest_prmd2)\<rparr>;
            env10 = env9\<lparr>GCSR := (GCSR env9)(ERA := pc env9)\<rparr>;
            env11 = env10\<lparr>GCSR := (GCSR env10)(ESTAT :=
                      FIELD_DP64 (GCSR env10 ESTAT) (CSR_ESTAT_ECODE H) (ucast EXCCODE_HVC))\<rparr>;
            env12 = env11\<lparr>CSR := (CSR env11)(CRMD := FIELD_DP64 (CSR env11 CRMD) CSR_CRMD_PLV 0)\<rparr>;
            env13 = env12\<lparr>CSR := (CSR env12)(CRMD := FIELD_DP64 (CSR env12 CRMD) CSR_CRMD_IE 0)\<rparr>
        in do_raise_exception env13 EXCCODE_HVC)"

definition helper_vm_exit_with_fault ::
  "cpu_csr_h \<Rightarrow> CPULoongArchState \<Rightarrow> u32 \<Rightarrow> u64 \<Rightarrow> u64 \<Rightarrow> u32 \<Rightarrow> unit outcome" where
  "helper_vm_exit_with_fault H env reason gva gpa acc =
     (if \<not> is_guest_execution_context H env then Ret () env
      else
        let env1 = env\<lparr>vm_exit_ctx := (vm_exit_ctx env)\<lparr>exit_reason := reason\<rparr>\<rparr>;
            env2 = env1\<lparr>vm_exit_ctx := (vm_exit_ctx env1)\<lparr>fault_gva := gva\<rparr>\<rparr>;
            env3 = env2\<lparr>vm_exit_ctx := (vm_exit_ctx env2)\<lparr>fault_gpa := gpa\<rparr>\<rparr>;
            env4 = env3\<lparr>vm_exit_ctx := (vm_exit_ctx env3)\<lparr>gid := get_guest_id H env3\<rparr>\<rparr>;
            env5 = env4\<lparr>vm_exit_ctx := (vm_exit_ctx env4)\<lparr>access_type := acc\<rparr>\<rparr>;
            env6 = env5\<lparr>vm_exit_ctx :=
                      (vm_exit_ctx env5)\<lparr>is_tlb_refill := (reason = VMEXIT_TLB)\<rparr>\<rparr>;
            env7 = env6\<lparr>CSR := (CSR env6)(BADV := gva)\<rparr>;
            env8 = env7\<lparr>GCSR := (GCSR env7)(BADV := gva)\<rparr>;
            env9 = (if reason = VMEXIT_MMIO \<or> reason = VMEXIT_TLB
                    then env8\<lparr>CSR_TRGP := gpa\<rparr> else env8)
        in helper_vm_exit_cpu H env9 reason)"

definition helper_vm_exit :: "cpu_csr_h \<Rightarrow> CPULoongArchState \<Rightarrow> u32 \<Rightarrow> unit outcome" where
  "helper_vm_exit H env reason =
     (if is_guest_execution_context H env then
        let env1 = env\<lparr>CSR_GSTAT := FIELD_DP64 (CSR_GSTAT env) (CSR_GSTAT_PVM H)
                                        (FIELD_EX64 (CSR_GSTAT env) (CSR_GSTAT_VM H))\<rparr>;
            env2 = env1\<lparr>CSR_GSTAT := FIELD_DP64 (CSR_GSTAT env1) (CSR_GSTAT_VM H) 0\<rparr>;
            env3 = env2\<lparr>vm_exit_ctx := (vm_exit_ctx env2)\<lparr>exit_reason := reason\<rparr>\<rparr>;
            env4 = env3\<lparr>vm_exit_ctx := (vm_exit_ctx env3)\<lparr>fault_gva := CSR env3 BADV\<rparr>\<rparr>
        in do_raise_exception env4 EXCCODE_HVC
      else Ret () env)"

definition helper_vm_enter :: "cpu_csr_h \<Rightarrow> CPULoongArchState \<Rightarrow> CPULoongArchState" where
  "helper_vm_enter H env =
     (if is_hypervisor_execution_context H env
      then env\<lparr>CSR_GSTAT := FIELD_DP64 (CSR_GSTAT env) (CSR_GSTAT_VM H) 1\<rparr>
      else env)"

section \<open>Exception return (op_helper.c)\<close>

definition helper_ertn :: "cpu_csr_h \<Rightarrow> CPULoongArchState \<Rightarrow> CPULoongArchState" where
  "helper_ertn H env =
     (let is_guest = is_guest_execution_context H env;
          (csr_pplv, csr_pie, env3) =
            (if FIELD_EX64 (CSR env TLBRERA) (CSR_TLBRERA_ISTLBR H) \<noteq> 0 then
               let (pplv, pie, return_address) =
                     (if is_guest
                      then (FIELD_EX64 (GCSR env TLBRPRMD) (CSR_TLBRPRMD_PPLV H),
                            FIELD_EX64 (GCSR env TLBRPRMD) (CSR_TLBRPRMD_PIE H),
                            push_bit 2 (FIELD_EX64 (GCSR env TLBRERA) (CSR_TLBRERA_PC H)))
                      else (FIELD_EX64 (CSR env TLBRPRMD) (CSR_TLBRPRMD_PPLV H),
                            FIELD_EX64 (CSR env TLBRPRMD) (CSR_TLBRPRMD_PIE H),
                            push_bit 2 (FIELD_EX64 (CSR env TLBRERA) (CSR_TLBRERA_PC H))));
                   env1 = env\<lparr>CSR := (CSR env)(TLBRERA :=
                             FIELD_DP64 (CSR env TLBRERA) (CSR_TLBRERA_ISTLBR H) 0)\<rparr>;
                   env2 = env1\<lparr>CSR := (CSR env1)(CRMD :=
                             FIELD_DP64 (CSR env1 CRMD) CSR_CRMD_DA 0)\<rparr>;
                   env2' = env2\<lparr>CSR := (CSR env2)(CRMD :=
                             FIELD_DP64 (CSR env2 CRMD) CSR_CRMD_PG 1)\<rparr>
               in (pplv, pie, set_pc H env2' return_address)
             else
               let (pplv, pie, return_address) =
                     (if is_guest
                      then (FIELD_EX64 (GCSR env PRMD) (CSR_PRMD_PPLV H),
                            FIELD_EX64 (GCSR env PRMD) (CSR_PRMD_PIE H),
                            GCSR env ERA)
                      else (FIELD_EX64 (CSR env PRMD) (CSR_PRMD_PPLV H),
                            FIELD_EX64 (CSR env PRMD) (CSR_PRMD_PIE H),
                            CSR env ERA))
               in (pplv, pie, set_pc H env return_address));
          env4 = env3\<lparr>CSR := (CSR env3)(CRMD := FIELD_DP64 (CSR env3 CRMD) CSR_CRMD_PLV csr_pplv)\<rparr>;
          env5 = env4\<lparr>CSR := (CSR env4)(CRMD := FIELD_DP64 (CSR env4 CRMD) CSR_CRMD_IE csr_pie)\<rparr>;
          env6 = (if is_guest
                  then let pvm = FIELD_EX64 (CSR_GSTAT env5) (CSR_GSTAT_PVM H)
                       in env5\<lparr>CSR_GSTAT := FIELD_DP64 (CSR_GSTAT env5) (CSR_GSTAT_VM H) pvm\<rparr>
                  else env5)
      in env6\<lparr>lladdr := 1\<rparr>)"

section \<open>TLB helpers (tlb_helper.c)\<close>

text \<open>
  The value a C \<^verbatim>\<open>int\<close> takes from a 64-bit field value (the low 32 bits, read as
  two's complement), and C's remainder, which truncates towards zero. C leaves a right
  shift of a 64-bit value by a negative amount or by 64 and more undefined. \<open>shr64\<close>
  takes the amount modulo 64, as the shift instruction of a 64-bit host does with the
  count register; for an amount in \<open>[0, 63]\<close> it is the shift of C. No result below
  depends on the value of a shift outside that range.
\<close>

definition to_int :: "u64 \<Rightarrow> int" where
  "to_int v = sint (ucast v :: u32)"

definition c_rem :: "int \<Rightarrow> int \<Rightarrow> int" where
  "c_rem a b = sgn a * (\<bar>a\<bar> mod \<bar>b\<bar>)"

definition shr64 :: "u64 \<Rightarrow> int \<Rightarrow> u64" where
  "shr64 v n = drop_bit (nat (n mod 64)) v"

definition in_tlb :: "int \<Rightarrow> bool" where
  "in_tlb index = (0 \<le> index \<and> index < LOONGARCH_TLB_MAX)"

definition obind :: "'a outcome \<Rightarrow> ('a \<Rightarrow> CPULoongArchState \<Rightarrow> 'b outcome) \<Rightarrow> 'b outcome" where
  "obind m f = (case m of Ret x env \<Rightarrow> f x env
                        | Raise c env \<Rightarrow> Raise c env
                        | OutOfBounds i \<Rightarrow> OutOfBounds i)"

definition get_current_guest_id :: "cpu_csr_h \<Rightarrow> CPULoongArchState \<Rightarrow> u8" where
  "get_current_guest_id H env = (if is_guest_mode H env then get_guest_id H env else 0)"

definition tlb_entry_matches_guest :: "cpu_csr_h \<Rightarrow> CPULoongArchState \<Rightarrow> LoongArchTLB \<Rightarrow> bool" where
  "tlb_entry_matches_guest H env t =
     (if \<not> has_lvz_capability env then True
      else let current_gid = get_current_guest_id H env;
               entry_gid = (ucast (FIELD_EX64 (tlb_misc t) TLB_MISC_GID) :: u8)
           in entry_gid = current_gid)"

definition get_effective_csr_asid :: "cpu_csr_h \<Rightarrow> CPULoongArchState \<Rightarrow> u64" where
  "get_effective_csr_asid H env = (if is_guest_mode H env then GCSR env ASID else CSR env ASID)"

definition get_effective_csr_tlbehi :: "cpu_csr_h \<Rightarrow> CPULoongArchState \<Rightarrow> u64" where
  "get_effective_csr_tlbehi H env = (if is_guest_mode H env then GCSR env TLBEHI else CSR env TLBEHI)"

definition get_effective_csr_tlbelo0 :: "cpu_csr_h \<Rightarrow> CPULoongArchState \<Rightarrow> u64" where
  "get_effective_csr_tlbelo0 H env =
     (if is_guest_mode H env then GCSR env TLBELO0 else CSR env TLBELO0)"

definition get_effective_csr_tlbelo1 :: "cpu_csr_h \<Rightarrow> CPULoongArchState \<Rightarrow> u64" where
  "get_effective_csr_tlbelo1 H env =
     (if is_guest_mode H env then GCSR env TLBELO1 else CSR env TLBELO1)"

definition get_effective_csr_tlbidx :: "cpu_csr_h \<Rightarrow> CPULoongArchState \<Rightarrow> u64" where
  "get_effective_csr_tlbidx H env = (if is_guest_mode H env then GCSR env TLBIDX else CSR env TLBIDX)"

definition set_effective_csr_tlbidx ::
  "cpu_csr_h \<Rightarrow> CPULoongArchState \<Rightarrow> u64 \<Rightarrow> CPULoongArchState" where
  "set_effective_csr_tlbidx H env v =
     (if is_guest_mode H env then env\<lparr>GCSR := (GCSR env)(TLBIDX := v)\<rparr>
      else env\<lparr>CSR := (CSR env)(TLBIDX := v)\<rparr>)"

definition set_effective_csr_tlbehi ::
  "cpu_csr_h \<Rightarrow> CPULoongArchState \<Rightarrow> u64 \<Rightarrow> CPULoongArchState" where
  "set_effective_csr_tlbehi H env v =
     (if is_guest_mode H env then env\<lparr>GCSR := (GCSR env)(TLBEHI := v)\<rparr>
      else env\<lparr>CSR := (CSR env)(TLBEHI := v)\<rparr>)"

definition set_effective_csr_tlbelo0 ::
  "cpu_csr_h \<Rightarrow> CPULoongArchState \<Rightarrow> u64 \<Rightarrow> CPULoongArchState" where
  "set_effective_csr_tlbelo0 H env v =
     (if is_guest_mode H env then env\<lparr>GCSR := (GCSR env)(TLBELO0 := v)\<rparr>
      else env\<lparr>CSR := (CSR env)(TLBELO0 := v)\<rparr>)"

definition set_effective_csr_tlbelo1 ::
  "cpu_csr_h \<Rightarrow> CPULoongArchState \<Rightarrow> u64 \<Rightarrow> CPULoongArchState" where
  "set_effective_csr_tlbelo1 H env v =
     (if is_guest_mode H env then env\<lparr>GCSR := (GCSR env)(TLBELO1 := v)\<rparr>
      else env\<lparr>CSR := (CSR env)(TLBELO1 := v)\<rparr>)"

definition set_effective_csr_asid ::
  "cpu_csr_h \<Rightarrow> CPULoongArchState \<Rightarrow> u64 \<Rightarrow> CPULoongArchState" where
  "set_effective_csr_asid H env v =
     (if is_guest_mode H env then env\<lparr>GCSR := (GCSR env)(ASID := v)\<rparr>
      else env\<lparr>CSR := (CSR env)(ASID := v)\<rparr>)"

text \<open>
  \<^verbatim>\<open>invalidate_tlb_entry\<close> reads the entry at \<open>index\<close> and flushes the pages it maps
  from the emulator's host-side translation cache (\<^verbatim>\<open>tlb_flush_range_by_mmuidx\<close>).
  That cache is not part of \<^verbatim>\<open>CPULoongArchState\<close>; on the CPU state the function
  is the read of \<^verbatim>\<open>env->tlb[index]\<close> and nothing else. The same holds for
  \<^verbatim>\<open>tlb_flush\<close>, which the clearing helpers call last.
\<close>

definition invalidate_tlb_entry :: "cpu_csr_h \<Rightarrow> CPULoongArchState \<Rightarrow> int \<Rightarrow> unit outcome" where
  "invalidate_tlb_entry H env index = (if in_tlb index then Ret () env else OutOfBounds index)"

definition fill_tlb_entry :: "cpu_csr_h \<Rightarrow> CPULoongArchState \<Rightarrow> int \<Rightarrow> unit outcome" where
  "fill_tlb_entry H env index =
     (if \<not> in_tlb index then OutOfBounds index
      else
        let t = tlb env (nat index);
            (csr_ps, csr_vppn, lo0, lo1) =
              (if FIELD_EX64 (CSR env TLBRERA) (CSR_TLBRERA_ISTLBR H) \<noteq> 0
               then ((ucast (FIELD_EX64 (CSR env TLBREHI) (CSR_TLBREHI_PS H)) :: u8),
                     (if is_la64 env
                      then FIELD_EX64 (CSR env TLBREHI) (CSR_TLBREHI_64_VPPN H)
                      else FIELD_EX64 (CSR env TLBREHI) (CSR_TLBREHI_32_VPPN H)),
                     CSR env TLBRELO0, CSR env TLBRELO1)
               else ((ucast (FIELD_EX64 (get_effective_csr_tlbidx H env) (CSR_TLBIDX_PS H)) :: u8),
                     (if is_la64 env
                      then FIELD_EX64 (get_effective_csr_tlbehi H env) (CSR_TLBEHI_64_VPPN H)
                      else FIELD_EX64 (get_effective_csr_tlbehi H env) (CSR_TLBEHI_32_VPPN H)),
                     get_effective_csr_tlbelo0 H env, get_effective_csr_tlbelo1 H env));
            misc1 = (if LOONGARCH_STLB \<le> index
                     then FIELD_DP64 (tlb_misc t) TLB_MISC_PS (ucast csr_ps) else tlb_misc t);
            misc2 = FIELD_DP64 misc1 TLB_MISC_VPPN csr_vppn;
            misc3 = FIELD_DP64 misc2 TLB_MISC_E 1;
            csr_asid = (ucast (FIELD_EX64 (get_effective_csr_asid H env) (CSR_ASID_ASID H)) :: u16);
            misc4 = FIELD_DP64 misc3 TLB_MISC_ASID (ucast csr_asid);
            misc5 = (if has_lvz_capability env
                     then FIELD_DP64 misc4 TLB_MISC_GID (ucast (get_current_guest_id H env))
                     else misc4)
        in Ret () (env\<lparr>tlb := (tlb env)(nat index :=
                     \<lparr>tlb_misc = misc5, tlb_entry0 = lo0, tlb_entry1 = lo1\<rparr>)\<rparr>))"

text \<open>
  \<^verbatim>\<open>get_random_tlb\<close> draws one 32-bit value from the guest-random source; the value
  drawn is the argument \<open>val\<close>.
\<close>

definition get_random_tlb :: "u32 \<Rightarrow> u32 \<Rightarrow> u32 \<Rightarrow> u32" where
  "get_random_tlb val low high = val mod (high - low + 1) + low"

text \<open>
  \<^verbatim>\<open>loongarch_tlb_search_guest\<close>: the eight ways of one STLB set, then the MTLB; the
  first entry that hits ends the search.
\<close>

definition stlb_way_hits :: "cpu_csr_h \<Rightarrow> CPULoongArchState \<Rightarrow> u64 \<Rightarrow> int \<Rightarrow> bool" where
  "stlb_way_hits H env vaddr i =
     (let current_gid = get_current_guest_id H env;
          csr_asid = (ucast (FIELD_EX64 (get_effective_csr_asid H env) (CSR_ASID_ASID H)) :: u16);
          stlb_ps = (ucast (FIELD_EX64 (CSR env STLBPS) (CSR_STLBPS_PS H)) :: u8);
          vpn = shr64 (vaddr AND TARGET_VIRT_MASK H) (uint stlb_ps + 1);
          stlb_idx = (ucast (vpn AND 0xff) :: u16);
          compare_shift = uint stlb_ps + 1 - int R_TLB_MISC_VPPN_SHIFT;
          t = tlb env (nat (i * 256 + uint stlb_idx));
          tlb_e = (ucast (FIELD_EX64 (tlb_misc t) TLB_MISC_E) :: u8)
      in if tlb_e \<noteq> 0 then
           if has_lvz_capability env \<and>
              (ucast (FIELD_EX64 (tlb_misc t) TLB_MISC_GID) :: u8) \<noteq> current_gid
           then False
           else
             let tlb_vppn = FIELD_EX64 (tlb_misc t) TLB_MISC_VPPN;
                 tlb_asid = (ucast (FIELD_EX64 (tlb_misc t) TLB_MISC_ASID) :: u16);
                 tlb_g = (ucast (FIELD_EX64 (tlb_entry0 t) (TLBENTRY_G H)) :: u8)
             in (tlb_g = 1 \<or> tlb_asid = csr_asid) \<and> vpn = shr64 tlb_vppn compare_shift
         else False)"

definition mtlb_entry_hits :: "cpu_csr_h \<Rightarrow> CPULoongArchState \<Rightarrow> u64 \<Rightarrow> int \<Rightarrow> bool" where
  "mtlb_entry_hits H env vaddr i =
     (let current_gid = get_current_guest_id H env;
          csr_asid = (ucast (FIELD_EX64 (get_effective_csr_asid H env) (CSR_ASID_ASID H)) :: u16);
          t = tlb env (nat i);
          tlb_e = (ucast (FIELD_EX64 (tlb_misc t) TLB_MISC_E) :: u8)
      in if tlb_e \<noteq> 0 then
           if has_lvz_capability env \<and>
              (ucast (FIELD_EX64 (tlb_misc t) TLB_MISC_GID) :: u8) \<noteq> current_gid
           then False
           else
             let tlb_vppn = FIELD_EX64 (tlb_misc t) TLB_MISC_VPPN;
                 tlb_ps = (ucast (FIELD_EX64 (tlb_misc t) TLB_MISC_PS) :: u8);
                 tlb_asid = (ucast (FIELD_EX64 (tlb_misc t) TLB_MISC_ASID) :: u16);
                 tlb_g = (ucast (FIELD_EX64 (tlb_entry0 t) (TLBENTRY_G H)) :: u8);
                 compare_shift = uint tlb_ps + 1 - int R_TLB_MISC_VPPN_SHIFT;
                 vpn = shr64 (vaddr AND TARGET_VIRT_MASK H) (uint tlb_ps + 1)
             in (tlb_g = 1 \<or> tlb_asid = csr_asid) \<and> vpn = shr64 tlb_vppn compare_shift
         else False)"

definition loongarch_tlb_search_guest ::
  "cpu_csr_h \<Rightarrow> CPULoongArchState \<Rightarrow> u64 \<Rightarrow> int option" where
  "loongarch_tlb_search_guest H env vaddr =
     (let stlb_ps = (ucast (FIELD_EX64 (CSR env STLBPS) (CSR_STLBPS_PS H)) :: u8);
          vpn = shr64 (vaddr AND TARGET_VIRT_MASK H) (uint stlb_ps + 1);
          stlb_idx = (ucast (vpn AND 0xff) :: u16)
      in case find (stlb_way_hits H env vaddr) [0..7] of
           Some i \<Rightarrow> Some (i * 256 + uint stlb_idx)
         | None \<Rightarrow> find (mtlb_entry_hits H env vaddr) [LOONGARCH_STLB..LOONGARCH_TLB_MAX - 1])"

definition helper_tlbsrch :: "cpu_csr_h \<Rightarrow> CPULoongArchState \<Rightarrow> CPULoongArchState" where
  "helper_tlbsrch H env =
     (let search_ehi = (if FIELD_EX64 (CSR env TLBRERA) (CSR_TLBRERA_ISTLBR H) \<noteq> 0
                        then CSR env TLBREHI else get_effective_csr_tlbehi H env)
      in case loongarch_tlb_search_guest H env search_ehi of
           Some index \<Rightarrow>
             let env1 = set_effective_csr_tlbidx H env
                          (FIELD_DP64 (get_effective_csr_tlbidx H env) (CSR_TLBIDX_INDEX H)
                             (word_of_int index))
             in set_effective_csr_tlbidx H env1
                  (FIELD_DP64 (get_effective_csr_tlbidx H env1) (CSR_TLBIDX_NE H) 0)
         | None \<Rightarrow>
             set_effective_csr_tlbidx H env
               (FIELD_DP64 (get_effective_csr_tlbidx H env) (CSR_TLBIDX_NE H) 1))"

text \<open>
  The six assignments with which \<^verbatim>\<open>helper_tlbrd\<close> reports an entry that is disabled
  or belongs to another guest (the source writes them out in both branches).
\<close>

definition tlbrd_invalid :: "cpu_csr_h \<Rightarrow> CPULoongArchState \<Rightarrow> CPULoongArchState" where
  "tlbrd_invalid H env =
     (let env1 = set_effective_csr_tlbidx H env
                   (FIELD_DP64 (get_effective_csr_tlbidx H env) (CSR_TLBIDX_NE H) 1);
          env2 = set_effective_csr_asid H env1
                   (FIELD_DP64 (get_effective_csr_asid H env1) (CSR_ASID_ASID H) 0);
          env3 = set_effective_csr_tlbehi H env2 0;
          env4 = set_effective_csr_tlbelo0 H env3 0;
          env5 = set_effective_csr_tlbelo1 H env4 0
      in set_effective_csr_tlbidx H env5
           (FIELD_DP64 (get_effective_csr_tlbidx H env5) (CSR_TLBIDX_PS H) 0))"

definition helper_tlbrd :: "cpu_csr_h \<Rightarrow> CPULoongArchState \<Rightarrow> unit outcome" where
  "helper_tlbrd H env =
     (let index = to_int (FIELD_EX64 (get_effective_csr_tlbidx H env) (CSR_TLBIDX_INDEX H))
      in if \<not> in_tlb index then OutOfBounds index
         else
           let t = tlb env (nat index)
           in if \<not> tlb_entry_matches_guest H env t then Ret () (tlbrd_invalid H env)
              else
                let tlb_ps = (if LOONGARCH_STLB \<le> index
                              then (ucast (FIELD_EX64 (tlb_misc t) TLB_MISC_PS) :: u8)
                              else ucast (FIELD_EX64 (CSR env STLBPS) (CSR_STLBPS_PS H)));
                    tlb_e = (ucast (FIELD_EX64 (tlb_misc t) TLB_MISC_E) :: u8)
                in if tlb_e = 0 then Ret () (tlbrd_invalid H env)
                   else
                     let env1 = set_effective_csr_tlbidx H env
                                  (FIELD_DP64 (get_effective_csr_tlbidx H env) (CSR_TLBIDX_NE H) 0);
                         env2 = set_effective_csr_tlbidx H env1
                                  (FIELD_DP64 (get_effective_csr_tlbidx H env1) (CSR_TLBIDX_PS H)
                                     (ucast (tlb_ps AND 0x3f)));
                         env3 = set_effective_csr_tlbehi H env2
                                  (push_bit R_TLB_MISC_VPPN_SHIFT
                                     (FIELD_EX64 (tlb_misc t) TLB_MISC_VPPN));
                         env4 = set_effective_csr_tlbelo0 H env3 (tlb_entry0 t)
                     in Ret () (set_effective_csr_tlbelo1 H env4 (tlb_entry1 t)))"

definition helper_tlbwr :: "cpu_csr_h \<Rightarrow> CPULoongArchState \<Rightarrow> unit outcome" where
  "helper_tlbwr H env =
     (let index = to_int (FIELD_EX64 (get_effective_csr_tlbidx H env) (CSR_TLBIDX_INDEX H))
      in obind (if index < LOONGARCH_TLB_MAX then invalidate_tlb_entry H env index
                else Ret () env)
           (\<lambda>_ env1.
              if FIELD_EX64 (get_effective_csr_tlbidx H env1) (CSR_TLBIDX_NE H) \<noteq> 0 then
                if \<not> in_tlb index then OutOfBounds index
                else
                  let t = tlb env1 (nat index)
                  in Ret () (env1\<lparr>tlb := (tlb env1)(nat index :=
                               t\<lparr>tlb_misc := FIELD_DP64 (tlb_misc t) TLB_MISC_E 0\<rparr>)\<rparr>)
              else fill_tlb_entry H env1 index))"

definition tlbfill_index :: "cpu_csr_h \<Rightarrow> CPULoongArchState \<Rightarrow> u32 \<Rightarrow> int" where
  "tlbfill_index H env rnd =
     (let (entryhi, pagesize) =
            (if FIELD_EX64 (CSR env TLBRERA) (CSR_TLBRERA_ISTLBR H) \<noteq> 0
             then (CSR env TLBREHI,
                   (ucast (FIELD_EX64 (CSR env TLBREHI) (CSR_TLBREHI_PS H)) :: u16))
             else (get_effective_csr_tlbehi H env,
                   ucast (FIELD_EX64 (get_effective_csr_tlbidx H env) (CSR_TLBIDX_PS H))));
          stlb_ps = (ucast (FIELD_EX64 (CSR env STLBPS) (CSR_STLBPS_PS H)) :: u16)
      in if pagesize = stlb_ps then
           let address = entryhi AND NOT (MAKE_64BIT_MASK 0 (fst (CSR_TLBEHI_64_VPPN H)));
               set = sint (get_random_tlb rnd 0 7);
               stlb_idx = to_int (shr64 address (uint stlb_ps + 1) AND 0xff)
           in set * 256 + stlb_idx
         else sint (get_random_tlb rnd (word_of_int LOONGARCH_STLB)
                      (word_of_int (LOONGARCH_TLB_MAX - 1))))"

definition helper_tlbfill :: "cpu_csr_h \<Rightarrow> CPULoongArchState \<Rightarrow> u32 \<Rightarrow> unit outcome" where
  "helper_tlbfill H env rnd =
     (let index = tlbfill_index H env rnd
      in obind (invalidate_tlb_entry H env index) (\<lambda>_ env1. fill_tlb_entry H env1 index))"

text \<open>
  The clearing helpers all run one loop shape: for each index of a list in turn, if the
  entry there meets a condition, clear its E bit. The condition reads the CPU state as
  it is at that iteration.
\<close>

fun tlb_invalidate_where ::
  "(CPULoongArchState \<Rightarrow> int \<Rightarrow> LoongArchTLB \<Rightarrow> bool) \<Rightarrow> int list \<Rightarrow> CPULoongArchState
   \<Rightarrow> unit outcome" where
  "tlb_invalidate_where cond [] env = Ret () env"
| "tlb_invalidate_where cond (i # rest) env =
     (if in_tlb i then
        let t = tlb env (nat i)
        in tlb_invalidate_where cond rest
             (if cond env i t
              then env\<lparr>tlb := (tlb env)(nat i :=
                         t\<lparr>tlb_misc := FIELD_DP64 (tlb_misc t) TLB_MISC_E 0\<rparr>)\<rparr>
              else env)
      else OutOfBounds i)"

definition tlbclr_cond :: "cpu_csr_h \<Rightarrow> u16 \<Rightarrow> CPULoongArchState \<Rightarrow> int \<Rightarrow> LoongArchTLB \<Rightarrow> bool" where
  "tlbclr_cond H csr_asid env i t =
     (if \<not> tlb_entry_matches_guest H env t then False
      else
        let tlb_asid = (ucast (FIELD_EX64 (tlb_misc t) TLB_MISC_ASID) :: u16);
            tlb_g = (ucast (FIELD_EX64 (tlb_entry0 t) (TLBENTRY_G H)) :: u16)
        in tlb_g = 0 \<and> tlb_asid = csr_asid)"

definition helper_tlbclr :: "cpu_csr_h \<Rightarrow> CPULoongArchState \<Rightarrow> unit outcome" where
  "helper_tlbclr H env =
     (let csr_asid = (ucast (FIELD_EX64 (get_effective_csr_asid H env) (CSR_ASID_ASID H)) :: u16);
          index = to_int (FIELD_EX64 (get_effective_csr_tlbidx H env) (CSR_TLBIDX_INDEX H))
      in if index < LOONGARCH_STLB then
           tlb_invalidate_where (tlbclr_cond H csr_asid)
             (map (\<lambda>i. i * 256 + c_rem index 256) [0..7]) env
         else if index < LOONGARCH_TLB_MAX then
           tlb_invalidate_where (tlbclr_cond H csr_asid)
             [LOONGARCH_STLB..LOONGARCH_TLB_MAX - 1] env
         else Ret () env)"

definition helper_tlbflush :: "cpu_csr_h \<Rightarrow> CPULoongArchState \<Rightarrow> unit outcome" where
  "helper_tlbflush H env =
     (let index = to_int (FIELD_EX64 (get_effective_csr_tlbidx H env) (CSR_TLBIDX_INDEX H))
      in if index < LOONGARCH_STLB then
           tlb_invalidate_where (\<lambda>e i t. tlb_entry_matches_guest H e t)
             (map (\<lambda>i. i * 256 + c_rem index 256) [0..7]) env
         else if index < LOONGARCH_TLB_MAX then
           tlb_invalidate_where (\<lambda>e i t. tlb_entry_matches_guest H e t)
             [LOONGARCH_STLB..LOONGARCH_TLB_MAX - 1] env
         else Ret () env)"

definition helper_invtlb_all :: "cpu_csr_h \<Rightarrow> CPULoongArchState \<Rightarrow> unit outcome" where
  "helper_invtlb_all H env =
     tlb_invalidate_where (\<lambda>e i t. tlb_entry_matches_guest H e t)
       [0..LOONGARCH_TLB_MAX - 1] env"

definition helper_invtlb_all_g :: "cpu_csr_h \<Rightarrow> CPULoongArchState \<Rightarrow> u32 \<Rightarrow> unit outcome" where
  "helper_invtlb_all_g H env g =
     tlb_invalidate_where
       (\<lambda>e i t. let tlb_g = (ucast (FIELD_EX64 (tlb_entry0 t) (TLBENTRY_G H)) :: u8)
                in (ucast tlb_g :: u32) = g \<and> tlb_entry_matches_guest H e t)
       [0..LOONGARCH_TLB_MAX - 1] env"

definition helper_invtlb_all_asid :: "cpu_csr_h \<Rightarrow> CPULoongArchState \<Rightarrow> u64 \<Rightarrow> unit outcome" where
  "helper_invtlb_all_asid H env info =
     (let asid = (ucast (info AND MAKE_64BIT_MASK (fst (CSR_ASID_ASID H)) (snd (CSR_ASID_ASID H)))
                  :: u16)
      in tlb_invalidate_where
           (\<lambda>e i t. let tlb_g = (ucast (FIELD_EX64 (tlb_entry0 t) (TLBENTRY_G H)) :: u8);
                        tlb_asid = (ucast (FIELD_EX64 (tlb_misc t) TLB_MISC_ASID) :: u16)
                    in tlb_g = 0 \<and> tlb_asid = asid \<and> tlb_entry_matches_guest H e t)
           [0..LOONGARCH_TLB_MAX - 1] env)"

definition invtlb_page_match ::
  "cpu_csr_h \<Rightarrow> CPULoongArchState \<Rightarrow> u64 \<Rightarrow> int \<Rightarrow> LoongArchTLB \<Rightarrow> bool" where
  "invtlb_page_match H env addr i t =
     (let tlb_ps = (if LOONGARCH_STLB \<le> i
                    then (ucast (FIELD_EX64 (tlb_misc t) TLB_MISC_PS) :: u8)
                    else ucast (FIELD_EX64 (CSR env STLBPS) (CSR_STLBPS_PS H)));
          tlb_vppn = FIELD_EX64 (tlb_misc t) TLB_MISC_VPPN;
          vpn = shr64 (addr AND TARGET_VIRT_MASK H) (uint tlb_ps + 1);
          compare_shift = (tlb_ps + 1 - of_nat R_TLB_MISC_VPPN_SHIFT :: u8)
      in vpn = shr64 tlb_vppn (uint compare_shift))"

definition helper_invtlb_page_asid ::
  "cpu_csr_h \<Rightarrow> CPULoongArchState \<Rightarrow> u64 \<Rightarrow> u64 \<Rightarrow> unit outcome" where
  "helper_invtlb_page_asid H env info addr =
     (let asid = (ucast (info AND 0x3ff) :: u16)
      in tlb_invalidate_where
           (\<lambda>e i t. let tlb_g = (ucast (FIELD_EX64 (tlb_entry0 t) (TLBENTRY_G H)) :: u8);
                        tlb_asid = (ucast (FIELD_EX64 (tlb_misc t) TLB_MISC_ASID) :: u16)
                    in if \<not> tlb_entry_matches_guest H e t then False
                       else tlb_g = 0 \<and> tlb_asid = asid \<and> invtlb_page_match H e addr i t)
           [0..LOONGARCH_TLB_MAX - 1] env)"

definition helper_invtlb_page_asid_or_g ::
  "cpu_csr_h \<Rightarrow> CPULoongArchState \<Rightarrow> u64 \<Rightarrow> u64 \<Rightarrow> unit outcome" where
  "helper_invtlb_page_asid_or_g H env info addr =
     (let asid = (ucast (info AND 0x3ff) :: u16)
      in tlb_invalidate_where
           (\<lambda>e i t. let tlb_g = (ucast (FIELD_EX64 (tlb_entry0 t) (TLBENTRY_G H)) :: u8);
                        tlb_asid = (ucast (FIELD_EX64 (tlb_misc t) TLB_MISC_ASID) :: u16)
                    in if \<not> tlb_entry_matches_guest H e t then False
                       else (tlb_g \<noteq> 0 \<or> tlb_asid = asid) \<and> invtlb_page_match H e addr i t)
           [0..LOONGARCH_TLB_MAX - 1] env)"

section \<open>Guest instructions and the hypercall (LVZ helpers)\<close>

definition trigger_vm_exit :: "cpu_csr_h \<Rightarrow> CPULoongArchState \<Rightarrow> u32 \<Rightarrow> u64 \<Rightarrow> 'a outcome" where
  "trigger_vm_exit H env reason info =
     do_raise_exception
       (env\<lparr>CSR_GSTAT := FIELD_DP64 (CSR_GSTAT env) (CSR_GSTAT_VM H) 0\<rparr>) EXCCODE_HVC"

text \<open>
  \<^verbatim>\<open>get_guest_csr_ptr\<close> returns the address of a guest register, or \<^verbatim>\<open>NULL\<close>; the
  address is the register's name here. Every name has a case; the SAVE registers are
  the sixteen of the default branch.
\<close>

definition get_guest_csr_ptr :: "cpu_csr_h \<Rightarrow> u32 \<Rightarrow> csr_reg option" where
  "get_guest_csr_ptr H csr =
     (case gcsr_label H csr of
        None \<Rightarrow> None
      | Some r \<Rightarrow>
          (case r of SAVE n \<Rightarrow> if n \<le> 15 then Some r else None
                   | DMW n \<Rightarrow> if n \<le> 3 then Some r else None
                   | _ \<Rightarrow> Some r))"

definition helper_gcsrrd :: "cpu_csr_h \<Rightarrow> CPULoongArchState \<Rightarrow> u32 \<Rightarrow> u64 outcome" where
  "helper_gcsrrd H env csr =
     (if \<not> is_guest_mode H env then do_raise_exception env EXCCODE_IPE
      else case get_guest_csr_ptr H csr of
             None \<Rightarrow> trigger_vm_exit H env VMEXIT_CSRR (ucast csr)
           | Some r \<Rightarrow>
               if r = ESTAT \<and> CSR_GCFG env AND push_bit 6 1 = 0
               then trigger_vm_exit H env VMEXIT_CSRR (ucast csr)
               else if (r = TCFG \<or> r = TVAL) \<and> CSR_GCFG env AND push_bit 8 1 = 0
               then trigger_vm_exit H env VMEXIT_TIMER (ucast csr)
               else Ret (GCSR env r) env)"

definition helper_gcsrwr :: "cpu_csr_h \<Rightarrow> CPULoongArchState \<Rightarrow> u64 \<Rightarrow> u32 \<Rightarrow> u64 outcome" where
  "helper_gcsrwr H env val csr =
     (if \<not> is_guest_mode H env then do_raise_exception env EXCCODE_IPE
      else case get_guest_csr_ptr H csr of
             None \<Rightarrow> trigger_vm_exit H env VMEXIT_CSRW (ucast csr)
           | Some r \<Rightarrow>
               let old_val = GCSR env r
               in if r = ESTAT \<and> CSR_GCFG env AND push_bit 7 1 = 0
                  then trigger_vm_exit H env VMEXIT_CSRW (ucast csr)
                  else if r = TCFG \<and> CSR_GCFG env AND push_bit 9 1 = 0
                  then trigger_vm_exit H env VMEXIT_TIMER (ucast csr)
                  else if r = TICLR
                  then trigger_vm_exit H env VMEXIT_TIMER (ucast csr)
                  else Ret old_val (env\<lparr>GCSR := (GCSR env)(r := val)\<rparr>))"

definition helper_gcsrxchg ::
  "cpu_csr_h \<Rightarrow> CPULoongArchState \<Rightarrow> u64 \<Rightarrow> u64 \<Rightarrow> u32 \<Rightarrow> u64 outcome" where
  "helper_gcsrxchg H env rj rd csr =
     (if \<not> is_guest_mode H env then do_raise_exception env EXCCODE_IPE
      else case get_guest_csr_ptr H csr of
             None \<Rightarrow> trigger_vm_exit H env VMEXIT_CSRX (ucast csr)
           | Some r \<Rightarrow>
               let old_val = GCSR env r;
                   new_val = (old_val AND NOT rd) OR (rj AND rd)
               in if r = ESTAT \<and> CSR_GCFG env AND push_bit 7 1 = 0
                  then trigger_vm_exit H env VMEXIT_CSRX (ucast csr)
                  else if r = TCFG \<and> CSR_GCFG env AND push_bit 9 1 = 0
                  then trigger_vm_exit H env VMEXIT_TIMER (ucast csr)
                  else Ret old_val (env\<lparr>GCSR := (GCSR env)(r := new_val)\<rparr>))"

definition helper_gtlbclr :: "cpu_csr_h \<Rightarrow> CPULoongArchState \<Rightarrow> unit outcome" where
  "helper_gtlbclr H env =
     (if \<not> is_guest_mode H env then do_raise_exception env EXCCODE_IPE
      else if \<not> has_lvz_capability env then do_raise_exception env EXCCODE_IPE
      else trigger_vm_exit H env VMEXIT_TLB 0)"

definition helper_gtlbflush :: "cpu_csr_h \<Rightarrow> CPULoongArchState \<Rightarrow> unit outcome" where
  "helper_gtlbflush H env =
     (if \<not> is_guest_mode H env then do_raise_exception env EXCCODE_IPE
      else if \<not> has_lvz_capability env then do_raise_exception env EXCCODE_IPE
      else trigger_vm_exit H env VMEXIT_TLB 1)"

text \<open>
  \<^verbatim>\<open>helper_gtlbwr\<close> reads the index into a \<^verbatim>\<open>uint32_t\<close> and returns when it is not
  below \<^verbatim>\<open>LOONGARCH_TLB_MAX\<close>, before any access to the array.
\<close>

definition helper_gtlbwr :: "cpu_csr_h \<Rightarrow> CPULoongArchState \<Rightarrow> unit outcome" where
  "helper_gtlbwr H env =
     (if \<not> is_guest_mode H env then do_raise_exception env EXCCODE_IPE
      else if \<not> has_lvz_capability env then do_raise_exception env EXCCODE_IPE
      else
        let index = (ucast (FIELD_EX64 (GCSR env TLBIDX) (CSR_TLBIDX_INDEX H)) :: u32)
        in if LOONGARCH_TLB_MAX \<le> uint index then Ret () env
           else
             let gid = get_guest_id H env;
                 misc1 = FIELD_DP64 0 TLB_MISC_VPPN (drop_bit 13 (GCSR env TLBEHI));
                 misc2 = FIELD_DP64 misc1 TLB_MISC_ASID
                           (FIELD_EX64 (GCSR env ASID) (CSR_ASID_ASID H));
                 misc3 = FIELD_DP64 misc2 TLB_MISC_GID (ucast gid);
                 misc4 = FIELD_DP64 misc3 TLB_MISC_PS
                           (FIELD_EX64 (GCSR env TLBIDX) (CSR_TLBIDX_PS H));
                 misc5 = FIELD_DP64 misc4 TLB_MISC_E 1
             in Ret () (env\<lparr>tlb := (tlb env)(unat index :=
                          \<lparr>tlb_misc = misc5, tlb_entry0 = GCSR env TLBELO0,
                           tlb_entry1 = GCSR env TLBELO1\<rparr>)\<rparr>))"

definition helper_hvcl :: "cpu_csr_h \<Rightarrow> CPULoongArchState \<Rightarrow> u32 \<Rightarrow> unit outcome" where
  "helper_hvcl H env code =
     (if \<not> is_guest_mode H env then do_raise_exception env EXCCODE_INE
      else if \<not> has_lvz_capability env then do_raise_exception env EXCCODE_INE
      else trigger_vm_exit H env VMEXIT_HYPERCALL (ucast code))"

section \<open>The CSR mediator (CSR helpers)\<close>

text \<open>
  The timer and interrupt code of the emulator is not among the source files. The CSR
  helpers call into it at four places; these calls are parameters of the model: the
  index of this CPU, the tick count of the constant timer, the routine that stores a
  timer configuration, and the routine that sets the level of an interrupt line.
\<close>

record collaborators =
  cpu_index :: u64
  cpu_loongarch_get_constant_timer_ticks :: "CPULoongArchState \<Rightarrow> u64"
  cpu_loongarch_store_constant_timer_config :: "CPULoongArchState \<Rightarrow> u64 \<Rightarrow> CPULoongArchState"
  loongarch_cpu_set_irq :: "CPULoongArchState \<Rightarrow> int \<Rightarrow> int \<Rightarrow> CPULoongArchState"

definition IRQ_TIMER :: int where "IRQ_TIMER = 11"

definition helper_csrrd_pgd :: "CPULoongArchState \<Rightarrow> u64" where
  "helper_csrrd_pgd env =
     (let v = (if CSR env TLBRERA AND 1 \<noteq> 0 then CSR env TLBRBADV else CSR env BADV)
      in if drop_bit 63 v AND 1 \<noteq> 0 then CSR env PGDH else CSR env PGDL)"

definition helper_csrrd_cpuid :: "collaborators \<Rightarrow> CPULoongArchState \<Rightarrow> u64 outcome" where
  "helper_csrrd_cpuid X env =
     (let env1 = env\<lparr>CSR := (CSR env)(CPUID := cpu_index X)\<rparr> in Ret (CSR env1 CPUID) env1)"

definition helper_csrrd_tval :: "collaborators \<Rightarrow> CPULoongArchState \<Rightarrow> u64 outcome" where
  "helper_csrrd_tval X env = Ret (cpu_loongarch_get_constant_timer_ticks X env) env"

definition helper_csrwr_estat :: "CPULoongArchState \<Rightarrow> u64 \<Rightarrow> u64 outcome" where
  "helper_csrwr_estat env val =
     (let old_v = CSR env ESTAT
      in Ret old_v (env\<lparr>CSR := (CSR env)(ESTAT := deposit64 (CSR env ESTAT) 0 2 val)\<rparr>))"

definition helper_csrwr_asid :: "CPULoongArchState \<Rightarrow> u64 \<Rightarrow> u64 outcome" where
  "helper_csrwr_asid env val =
     (let old_v = CSR env ASID
      in Ret old_v (env\<lparr>CSR := (CSR env)(ASID := deposit64 (CSR env ASID) 0 10 val)\<rparr>))"

definition helper_csrwr_tcfg :: "collaborators \<Rightarrow> CPULoongArchState \<Rightarrow> u64 \<Rightarrow> u64 outcome" where
  "helper_csrwr_tcfg X env val =
     (let old_v = CSR env TCFG
      in Ret old_v (cpu_loongarch_store_constant_timer_config X env val))"

definition helper_csrwr_ticlr :: "collaborators \<Rightarrow> CPULoongArchState \<Rightarrow> u64 \<Rightarrow> u64 outcome" where
  "helper_csrwr_ticlr X env val =
     (if val AND 1 \<noteq> 0 then Ret 0 (loongarch_cpu_set_irq X env IRQ_TIMER 0) else Ret 0 env)"

definition check_csr_access_permission ::
  "cpu_csr_h \<Rightarrow> CPULoongArchState \<Rightarrow> u32 \<Rightarrow> bool \<Rightarrow> bool" where
  "check_csr_access_permission H env csr is_write =
     (if \<not> is_guest_mode H env then True
      else if \<not> has_lvz_capability env then False
      else case csr_label H csr of
             None \<Rightarrow> False
           | Some r \<Rightarrow>
               if r \<in> {CRMD, PRMD, EUEN, MISC, ECFG, ERA, BADV, BADI, EENTRY} then True
               else if r \<in> {TLBIDX, TLBEHI, TLBELO0, TLBELO1, ASID, PGDL, PGDH, PGD, PWCL,
                             PWCH, STLBPS, RVACFG} then True
               else if r \<in> {TID, TCFG, TVAL, CNTC} then
                 (if is_write then FIELD_EX64 (CSR_GCFG env) (CSR_GCFG_TITO H) \<noteq> 0
                  else FIELD_EX64 (CSR_GCFG env) (CSR_GCFG_TITP H) \<noteq> 0)
               else if r = TICLR then False
               else if r = ESTAT then
                 (if is_write then FIELD_EX64 (CSR_GCFG env) (CSR_GCFG_SITO H) \<noteq> 0
                  else FIELD_EX64 (CSR_GCFG env) (CSR_GCFG_SITP H) \<noteq> 0)
               else if r \<in> {CPUID, PRCFG1, PRCFG2, PRCFG3} then \<not> is_write
               else if r \<in> SAVE ` {0..15} then True
               else if r = LLBCTL then True
               else if r \<in> {TLBRENTRY, TLBRBADV, TLBRERA, TLBRSAVE, TLBRELO0, TLBRELO1,
                             TLBREHI, TLBRPRMD, MERRCTL, MERRINFO1, MERRINFO2, MERRENTRY,
                             MERRERA, MERRSAVE, CTAG} then False
               else if r \<in> DMW ` {0..3} then True
               else if r \<in> {IMPCTL1, IMPCTL2} then False
               else if r \<in> {DBG, DERA, DSAVE} then False
               else False)"

definition trigger_csr_vm_exit ::
  "cpu_csr_h \<Rightarrow> CPULoongArchState \<Rightarrow> u32 \<Rightarrow> bool \<Rightarrow> u64 \<Rightarrow> 'a outcome" where
  "trigger_csr_vm_exit H env csr is_write val =
     do_raise_exception
       (env\<lparr>CSR_GSTAT := FIELD_DP64 (CSR_GSTAT env) (CSR_GSTAT_VM H) 0\<rparr>) EXCCODE_HVC"

text \<open>The registers that the read switch returns as stored, and those that the write
  switch stores as given.\<close>

definition csrrd_plain :: "csr_reg set" where
  "csrrd_plain = {CRMD, PRMD, EUEN, MISC, ECFG, ESTAT, ERA, BADV, BADI, EENTRY, TLBIDX,
     TLBEHI, TLBELO0, TLBELO1, ASID, PGDL, PGDH, PWCL, PWCH, STLBPS, RVACFG, PRCFG1, PRCFG2,
     PRCFG3, TID, TCFG, CNTC, TICLR, LLBCTL, IMPCTL1, IMPCTL2}"

definition csrwr_plain :: "csr_reg set" where
  "csrwr_plain = {CRMD, PRMD, EUEN, MISC, ECFG, ERA, BADV, BADI, EENTRY, TLBIDX, TLBEHI,
     TLBELO0, TLBELO1, PGDL, PGDH, PGD, PWCL, PWCH, STLBPS, RVACFG, TID, CNTC, LLBCTL,
     IMPCTL1, IMPCTL2}"

definition helper_csrrd_with_lvz ::
  "cpu_csr_h \<Rightarrow> collaborators \<Rightarrow> CPULoongArchState \<Rightarrow> u32 \<Rightarrow> u64 outcome" where
  "helper_csrrd_with_lvz H X env csr =
     (if \<not> check_csr_access_permission H env csr False
      then trigger_csr_vm_exit H env csr False 0
      else
        let l = csr_label H csr
        in if is_guest_mode H env \<and> l = Some CPUID then helper_csrrd_cpuid X env
           else if is_guest_mode H env \<and> l = Some TVAL then helper_csrrd_tval X env
           else if is_guest_mode H env \<and> l = Some PGD then Ret (helper_csrrd_pgd env) env
           else case l of
                  None \<Rightarrow> trigger_csr_vm_exit H env csr False 0
                | Some r \<Rightarrow>
                    if r \<in> csrrd_plain then Ret (CSR env r) env
                    else if r = PGD then Ret (helper_csrrd_pgd env) env
                    else if r = CPUID then helper_csrrd_cpuid X env
                    else if r = TVAL then helper_csrrd_tval X env
                    else if r \<in> SAVE ` {0..15} then Ret (CSR env r) env
                    else if r \<in> DMW ` {0..3} then Ret (CSR env r) env
                    else trigger_csr_vm_exit H env csr False 0)"

definition helper_csrwr_with_lvz ::
  "cpu_csr_h \<Rightarrow> collaborators \<Rightarrow> CPULoongArchState \<Rightarrow> u64 \<Rightarrow> u32 \<Rightarrow> u64 outcome" where
  "helper_csrwr_with_lvz H X env val csr =
     (if \<not> check_csr_access_permission H env csr True
      then trigger_csr_vm_exit H env csr True val
      else case csr_label H csr of
             None \<Rightarrow> trigger_csr_vm_exit H env csr True val
           | Some r \<Rightarrow>
               if r = ESTAT then helper_csrwr_estat env val
               else if r = ASID then helper_csrwr_asid env val
               else if r = TCFG then helper_csrwr_tcfg X env val
               else if r = TICLR then helper_csrwr_ticlr X env val
               else if r \<in> csrwr_plain
               then Ret (CSR env r) (env\<lparr>CSR := (CSR env)(r := val)\<rparr>)
               else if r \<in> SAVE ` {0..15}
               then Ret (CSR env r) (env\<lparr>CSR := (CSR env)(r := val)\<rparr>)
               else if r \<in> DMW ` {0..3}
               then Ret (CSR env r) (env\<lparr>CSR := (CSR env)(r := val)\<rparr>)
               else trigger_csr_vm_exit H env csr True val)"

definition helper_csrxchg_with_lvz ::
  "cpu_csr_h \<Rightarrow> collaborators \<Rightarrow> CPULoongArchState \<Rightarrow> u64 \<Rightarrow> u64 \<Rightarrow> u32 \<Rightarrow> u64 outcome" where
  "helper_csrxchg_with_lvz H X env rj rd csr =
     (if \<not> check_csr_access_permission H env csr True
      then trigger_csr_vm_exit H env csr True rj
      else obind (helper_csrrd_with_lvz H X env csr)
             (\<lambda>old_val env1.
                let new_val = (old_val AND NOT rd) OR (rj AND rd)
                in obind (helper_csrwr_with_lvz H X env1 new_val csr)
                     (\<lambda>_ env2. Ret old_val env2)))"

section \<open>A concrete header and concrete states\<close>

text \<open>
  Modelled from the spec: cpu-csr.h is not among the source files. For evaluating the
  helpers on concrete states the header is instantiated with the register layout of
  the LoongArch architecture: the widths are those of the data model (\<open>VM:1\<close>,
  \<open>PVM:1\<close>, \<open>GID:8\<close>, \<open>ASID:10\<close>, \<open>VPPN:35\<close> at bits 47:13, \<open>PS:6\<close>), the
  \<open>GCFG\<close> bits are those the guest helpers test inline (SITP 6, SITO 7, TITP 8,
  TITO 9), and guest registers are numbered like host registers. The general theorems
  below hold for every header that meets their stated conditions; this one serves as
  the instance.
\<close>

definition loongarch_csr_label :: "u32 \<Rightarrow> csr_reg option" where
  "loongarch_csr_label n =
     (if n = 0x0 then Some CRMD else if n = 0x1 then Some PRMD else if n = 0x2 then Some EUEN
      else if n = 0x3 then Some MISC else if n = 0x4 then Some ECFG else if n = 0x5 then Some ESTAT
      else if n = 0x6 then Some ERA else if n = 0x7 then Some BADV else if n = 0x8 then Some BADI
      else if n = 0xc then Some EENTRY else if n = 0x10 then Some TLBIDX
      else if n = 0x11 then Some TLBEHI else if n = 0x12 then Some TLBELO0
      else if n = 0x13 then Some TLBELO1 else if n = 0x18 then Some ASID
      else if n = 0x19 then Some PGDL else if n = 0x1a then Some PGDH else if n = 0x1b then Some PGD
      else if n = 0x1c then Some PWCL else if n = 0x1d then Some PWCH
      else if n = 0x1e then Some STLBPS else if n = 0x1f then Some RVACFG
      else if n = 0x20 then Some CPUID else if n = 0x21 then Some PRCFG1
      else if n = 0x22 then Some PRCFG2 else if n = 0x23 then Some PRCFG3
      else if 0x30 \<le> n \<and> n \<le> 0x3f then Some (SAVE (unat n - 0x30))
      else if n = 0x40 then Some TID else if n = 0x41 then Some TCFG else if n = 0x42 then Some TVAL
      else if n = 0x43 then Some CNTC else if n = 0x44 then Some TICLR
      else if n = 0x60 then Some LLBCTL else if n = 0x80 then Some IMPCTL1
      else if n = 0x81 then Some IMPCTL2 else if n = 0x88 then Some TLBRENTRY
      else if n = 0x89 then Some TLBRBADV else if n = 0x8a then Some TLBRERA
      else if n = 0x8b then Some TLBRSAVE else if n = 0x8c then Some TLBRELO0
      else if n = 0x8d then Some TLBRELO1 else if n = 0x8e then Some TLBREHI
      else if n = 0x8f then Some TLBRPRMD else if n = 0x90 then Some MERRCTL
      else if n = 0x91 then Some MERRINFO1 else if n = 0x92 then Some MERRINFO2
      else if n = 0x93 then Some MERRENTRY else if n = 0x94 then Some MERRERA
      else if n = 0x95 then Some MERRSAVE else if n = 0x98 then Some CTAG
      else if 0x180 \<le> n \<and> n \<le> 0x183 then Some (DMW (unat n - 0x180))
      else if n = 0x500 then Some DBG else if n = 0x501 then Some DERA
      else if n = 0x502 then Some DSAVE else None)"

definition loongarch_cpu_csr_h :: cpu_csr_h where
  "loongarch_cpu_csr_h = \<lparr>
     CSR_GSTAT_VM = (0, 1), CSR_GSTAT_PVM = (1, 1), CSR_GSTAT_GID = (16, 8),
     CSR_GCFG_SITP = (6, 1), CSR_GCFG_SITO = (7, 1), CSR_GCFG_TITP = (8, 1),
     CSR_GCFG_TITO = (9, 1),
     CSR_PRMD_PPLV = (0, 2), CSR_PRMD_PIE = (2, 1), CSR_MISC_VA32 = (0, 4),
     CSR_ESTAT_ECODE = (16, 6),
     CSR_TLBIDX_INDEX = (0, 12), CSR_TLBIDX_PS = (24, 6), CSR_TLBIDX_NE = (31, 1),
     CSR_TLBEHI_32_VPPN = (13, 19), CSR_TLBEHI_64_VPPN = (13, 35),
     CSR_ASID_ASID = (0, 10), CSR_STLBPS_PS = (0, 5),
     CSR_TLBRERA_ISTLBR = (0, 1), CSR_TLBRERA_PC = (2, 62),
     CSR_TLBREHI_PS = (0, 6), CSR_TLBREHI_32_VPPN = (13, 19), CSR_TLBREHI_64_VPPN = (13, 35),
     CSR_TLBRPRMD_PPLV = (0, 2), CSR_TLBRPRMD_PIE = (2, 1),
     TLBENTRY_V = (0, 1), TLBENTRY_G = (6, 1),
     TARGET_VIRT_MASK = 0xffffffffffff,
     csr_label = loongarch_csr_label, gcsr_label = loongarch_csr_label \<rparr>"

text \<open>
  \<open>reset_env\<close> is a CPU with every register and every TLB word zero. \<open>lvz_host_env\<close>
  is an LA64 CPU with the LVZ capability (\<^verbatim>\<open>cpucfg[1].ARCH = 2\<close>, \<^verbatim>\<open>cpucfg[2].LVZ = 1\<close>)
  and virtualization enabled, in host mode. \<open>guest_env\<close> is the same CPU running
  guest 3: \<open>GSTAT.VM = 1\<close>, \<open>GSTAT.PVM = 0\<close>, \<open>GSTAT.GID = 3\<close>.
\<close>

definition reset_env :: CPULoongArchState where
  "reset_env = \<lparr> pc = 0, cpucfg = (\<lambda>_. 0), CSR = (\<lambda>_. 0), CSR_GSTAT = 0, CSR_GCFG = 0,
     CSR_GINTC = 0, CSR_GCNTC = 0, GCSR = (\<lambda>_. 0), CSR_GTLBC = 0, CSR_TRGP = 0,
     vm_exit_ctx = \<lparr> fault_gpa = 0, fault_gva = 0, gid = 0, exit_reason = 0, access_type = 0,
                     is_tlb_refill = False \<rparr>,
     lvz_enabled = False, lladdr = 0,
     tlb = (\<lambda>_. \<lparr> tlb_misc = 0, tlb_entry0 = 0, tlb_entry1 = 0 \<rparr>) \<rparr>"

definition lvz_host_env :: CPULoongArchState where
  "lvz_host_env = reset_env\<lparr> cpucfg := (\<lambda>_. 0)(1 := 2, 2 := 0x400), lvz_enabled := True \<rparr>"

definition guest_env :: CPULoongArchState where
  "guest_env = lvz_host_env\<lparr> CSR_GSTAT := 0x30001 \<rparr>"

text \<open>
  States for the TLB helpers. \<open>other_guest_entry_env\<close>: guest 3 with effective
  \<open>TLBIDX.INDEX = 5\<close>, and at index 5 an enabled entry tagged with guest 2.
  \<open>guest_write_env\<close>: guest 3 about to write entry 5 from its own registers.
  \<open>refill_mode_env\<close> and \<open>refill_fill_env\<close>: host states inside a TLB refill
  (\<open>TLBRERA.ISTLBR = 1\<close>). \<open>index_2112_env\<close>: a host state whose \<open>TLBIDX.INDEX\<close>
  is 2112, the first index past the array.
\<close>

definition other_guest_entry_env :: CPULoongArchState where
  "other_guest_entry_env =
     guest_env\<lparr> GCSR := (GCSR guest_env)(TLBIDX := 5),
                tlb := (tlb guest_env)(5 :=
                  \<lparr>tlb_misc = 0x80000000000001, tlb_entry0 = 0x1234, tlb_entry1 = 0x5678\<rparr>) \<rparr>"

definition refill_mode_env :: CPULoongArchState where
  "refill_mode_env =
     lvz_host_env\<lparr> CSR := (CSR lvz_host_env)(TLBRERA := 1, TLBIDX := 3, TLBELO0 := 5,
                                                 TLBRELO0 := 7) \<rparr>"

definition refill_fill_env :: CPULoongArchState where
  "refill_fill_env =
     lvz_host_env\<lparr> CSR := (CSR lvz_host_env)(TLBRERA := 1, TLBREHI := 0x800E, STLBPS := 0xE,
                                                 TLBIDX := 0x0E000000) \<rparr>"

definition index_2112_env :: CPULoongArchState where
  "index_2112_env = lvz_host_env\<lparr> CSR := (CSR lvz_host_env)(TLBIDX := 0x840) \<rparr>"

definition guest_write_env :: CPULoongArchState where
  "guest_write_env =
     guest_env\<lparr> GCSR := (GCSR guest_env)(TLBIDX := 5, TLBEHI := 0x4000, TLBELO0 := 0x11,
                                             TLBELO1 := 0x22, ASID := 7) \<rparr>"

section \<open>What a TLB helper leaves in place\<close>

text \<open>
  \<open>other_guests_kept g env env'\<close>: every TLB entry whose GID tag in \<open>env\<close> is not \<open>g\<close>
  has the same three words in \<open>env'\<close>. \<open>only_entry_written i env env'\<close>: every entry
  other than the one at index \<open>i\<close> has the same three words in \<open>env'\<close>.
  \<open>same_mode e env\<close>: the two states agree on what decides the current guest
  (\<^verbatim>\<open>cpucfg\<close> and \<open>GSTAT\<close>).
\<close>

definition other_guests_kept :: "u8 \<Rightarrow> CPULoongArchState \<Rightarrow> CPULoongArchState \<Rightarrow> bool" where
  "other_guests_kept g env env' =
     (\<forall>j. (ucast (FIELD_EX64 (tlb_misc (tlb env j)) TLB_MISC_GID) :: u8) \<noteq> g
          \<longrightarrow> tlb env' j = tlb env j)"

definition only_entry_written :: "nat \<Rightarrow> CPULoongArchState \<Rightarrow> CPULoongArchState \<Rightarrow> bool" where
  "only_entry_written i env env' = (\<forall>j. j \<noteq> i \<longrightarrow> tlb env' j = tlb env j)"

definition same_mode :: "CPULoongArchState \<Rightarrow> CPULoongArchState \<Rightarrow> bool" where
  "same_mode e env = (cpucfg e = cpucfg env \<and> CSR_GSTAT e = CSR_GSTAT env)"

section \<open>Facts about register fields\<close>

lemma ones_shift: "len \<le> 64 \<Longrightarrow> drop_bit (64 - len) (NOT 0 :: u64) = mask len"
  by (rule bit_word_eqI) (auto simp: bit_simps)

lemma FIELD_EX64_mask: "field_ok f \<Longrightarrow> FIELD_EX64 v f = drop_bit (fst f) v AND mask (snd f)"
  by (simp add: FIELD_EX64_def extract64_def field_ok_def ones_shift)

lemma FIELD_DP64_mask:
  "field_ok f \<Longrightarrow>
   FIELD_DP64 v f x = (v AND NOT (push_bit (fst f) (mask (snd f))))
                      OR (push_bit (fst f) x AND push_bit (fst f) (mask (snd f)))"
  by (simp add: FIELD_DP64_def deposit64_def field_ok_def ones_shift Let_def)

lemma FIELD_EX64_DP64_same:
  "field_ok f \<Longrightarrow> FIELD_EX64 (FIELD_DP64 v f x) f = x AND mask (snd f)"
  by (simp add: FIELD_EX64_mask FIELD_DP64_mask, rule bit_word_eqI)
     (auto simp: bit_simps field_ok_def)

lemma FIELD_EX64_DP64_other:
  "field_ok f \<Longrightarrow> field_ok g \<Longrightarrow> fields_apart f g \<Longrightarrow>
   FIELD_EX64 (FIELD_DP64 v f x) g = FIELD_EX64 v g"
  by (simp add: FIELD_EX64_mask FIELD_DP64_mask, rule bit_word_eqI)
     (auto simp: bit_simps field_ok_def fields_apart_def)

lemma FIELD_EX64_idem: "field_ok f \<Longrightarrow> FIELD_EX64 v f AND mask (snd f) = FIELD_EX64 v f"
  by (simp add: FIELD_EX64_mask and.assoc)


section \<open>Evaluation on the concrete header and states\<close>

lemmas field_eval = FIELD_EX64_def FIELD_DP64_def FIELD_EX32_def extract64_def deposit64_def
  extract32_def mask_eq_exp_minus_1 Let_def

lemmas mode_eval = is_guest_execution_context_def is_virtualization_mode_active_def
  is_hypervisor_execution_context_def is_guest_mode_def has_lvz_capability_def
  get_guest_id_def CPUCFG2_LVZ_def

lemmas state_eval = guest_env_def lvz_host_env_def reset_env_def loongarch_cpu_csr_h_def

lemma guest_env_guest_context: "is_guest_execution_context loongarch_cpu_csr_h guest_env"
  by (simp add: mode_eval state_eval field_eval)

lemma guest_env_guest_mode: "is_guest_mode loongarch_cpu_csr_h guest_env"
  by (simp add: mode_eval state_eval field_eval)

lemma loongarch_header_ok:
  "prmd_ok loongarch_cpu_csr_h" "estat_ok loongarch_cpu_csr_h" "gstat_ok loongarch_cpu_csr_h"
  by (simp_all add: prmd_ok_def estat_ok_def gstat_ok_def field_ok_def fields_apart_def
        loongarch_cpu_csr_h_def)

lemma set_pc_keeps [simp]:
  "CSR (set_pc H env v) = CSR env" "GCSR (set_pc H env v) = GCSR env"
  "CSR_GSTAT (set_pc H env v) = CSR_GSTAT env"
  by (simp_all add: set_pc_def)

section \<open>The VM-exit controller\<close>



text \<open>
  C2, evaluated. \<open>guest_env\<close> is what \<^verbatim>\<open>helper_vm_enter\<close> makes of a host state with
  \<open>GSTAT.GID = 3\<close>; it is in guest execution context with \<open>GSTAT.VM = 1\<close> and
  \<open>GSTAT.PVM = 0\<close>. The trap path of the guest TLB instruction \<^verbatim>\<open>gtlbflush\<close> raises the
  hypervisor exception with \<open>GSTAT.VM = 0\<close> and \<open>GSTAT.PVM\<close> still 0, not the 1 that
  \<open>GSTAT.VM\<close> held before.
\<close>

theorem gtlbflush_exit_keeps_pvm:
  "helper_vm_enter loongarch_cpu_csr_h (lvz_host_env\<lparr>CSR_GSTAT := 0x30000\<rparr>) = guest_env \<and>
   is_guest_execution_context loongarch_cpu_csr_h guest_env \<and>
   FIELD_EX64 (CSR_GSTAT guest_env) (CSR_GSTAT_VM loongarch_cpu_csr_h) = 1 \<and>
   helper_gtlbflush loongarch_cpu_csr_h guest_env
     = Raise EXCCODE_HVC (guest_env\<lparr>CSR_GSTAT := 0x30000\<rparr>) \<and>
   FIELD_EX64 (CSR_GSTAT (guest_env\<lparr>CSR_GSTAT := 0x30000\<rparr>))
     (CSR_GSTAT_VM loongarch_cpu_csr_h) = 0 \<and>
   FIELD_EX64 (CSR_GSTAT (guest_env\<lparr>CSR_GSTAT := 0x30000\<rparr>))
     (CSR_GSTAT_PVM loongarch_cpu_csr_h) = 0"
  by (simp add: helper_vm_enter_def helper_gtlbflush_def trigger_vm_exit_def
        do_raise_exception_def mode_eval state_eval field_eval)

text \<open>
  C5, evaluated. In guest mode \<^verbatim>\<open>hvcl 0x42\<close> raises the hypervisor exception with
  \<open>GSTAT.VM\<close> cleared and nothing else changed: the VM-exit context is the one from
  before, its exit reason is not \<open>VMEXIT_HYPERCALL\<close>, and the code 0x42 is stored
  nowhere in the state.
\<close>

theorem hvcl_records_nothing:
  "helper_hvcl loongarch_cpu_csr_h guest_env 0x42
     = Raise EXCCODE_HVC (guest_env\<lparr>CSR_GSTAT := 0x30000\<rparr>) \<and>
   vm_exit_ctx (guest_env\<lparr>CSR_GSTAT := 0x30000\<rparr>) = vm_exit_ctx guest_env \<and>
   exit_reason (vm_exit_ctx guest_env) \<noteq> VMEXIT_HYPERCALL"
  by (simp add: helper_hvcl_def trigger_vm_exit_def do_raise_exception_def mode_eval
        state_eval field_eval VMEXIT_HYPERCALL_def)

text \<open>
  C6, evaluated. In guest mode \<^verbatim>\<open>csrwr(TICLR, 1)\<close> (TICLR is register 0x44) is trapped:
  it raises the hypervisor exception with \<open>GSTAT.VM\<close> cleared, whatever the timer and
  interrupt collaborators \<open>X\<close> are, and calls none of them. Nothing else changes: the
  VM-exit context is the one from before, and its exit reason is not \<open>VMEXIT_CSRW\<close>.
\<close>

theorem csrwr_ticlr_trap_records_nothing:
  "helper_csrwr_with_lvz loongarch_cpu_csr_h X guest_env 1 0x44
     = Raise EXCCODE_HVC (guest_env\<lparr>CSR_GSTAT := 0x30000\<rparr>) \<and>
   vm_exit_ctx (guest_env\<lparr>CSR_GSTAT := 0x30000\<rparr>) = vm_exit_ctx guest_env \<and>
   exit_reason (vm_exit_ctx guest_env) \<noteq> VMEXIT_CSRW"
  by (simp add: helper_csrwr_with_lvz_def check_csr_access_permission_def
        trigger_csr_vm_exit_def loongarch_csr_label_def do_raise_exception_def mode_eval
        state_eval field_eval VMEXIT_CSRW_def)

section \<open>Exception return\<close>

text \<open>
  C4. \<^verbatim>\<open>ertn\<close> sets \<open>CRMD.PLV\<close> and \<open>CRMD.IE\<close> to the \<open>PPLV\<close> and \<open>PIE\<close> fields of
  \<open>PRMD\<close>, or of \<open>TLBRPRMD\<close> when the host \<open>TLBRERA.ISTLBR\<close> is set, taken from the
  guest bank in guest execution context and from the host bank otherwise; in guest
  execution context \<open>GSTAT.VM\<close> afterwards is the \<open>GSTAT.PVM\<close> from before.
\<close>

theorem ertn_restores_mode:
  assumes H: "prmd_ok H" "gstat_ok H"
  shows "let g = is_guest_execution_context H env;
             refill = (FIELD_EX64 (CSR env TLBRERA) (CSR_TLBRERA_ISTLBR H) \<noteq> 0);
             bank = (if g then GCSR env else CSR env);
             env' = helper_ertn H env
         in FIELD_EX64 (CSR env' CRMD) CSR_CRMD_PLV =
              (if refill then FIELD_EX64 (bank TLBRPRMD) (CSR_TLBRPRMD_PPLV H)
               else FIELD_EX64 (bank PRMD) (CSR_PRMD_PPLV H)) \<and>
            FIELD_EX64 (CSR env' CRMD) CSR_CRMD_IE =
              (if refill then FIELD_EX64 (bank TLBRPRMD) (CSR_TLBRPRMD_PIE H)
               else FIELD_EX64 (bank PRMD) (CSR_PRMD_PIE H)) \<and>
            (g \<longrightarrow> FIELD_EX64 (CSR_GSTAT env') (CSR_GSTAT_VM H) =
                    FIELD_EX64 (CSR_GSTAT env) (CSR_GSTAT_PVM H))"
proof -
  have plv: "field_ok CSR_CRMD_PLV" and ie: "field_ok CSR_CRMD_IE"
    and ap: "fields_apart CSR_CRMD_PLV CSR_CRMD_IE" "fields_apart CSR_CRMD_IE CSR_CRMD_PLV"
    and l2: "snd CSR_CRMD_PLV = 2" "snd CSR_CRMD_IE = 1"
    by (simp_all add: field_ok_def fields_apart_def CSR_CRMD_PLV_def CSR_CRMD_IE_def)
  from H have p: "field_ok (CSR_PRMD_PPLV H)" "field_ok (CSR_PRMD_PIE H)"
      "snd (CSR_PRMD_PPLV H) = 2" "snd (CSR_PRMD_PIE H) = 1"
      "field_ok (CSR_TLBRPRMD_PPLV H)" "field_ok (CSR_TLBRPRMD_PIE H)"
      "snd (CSR_TLBRPRMD_PPLV H) = 2" "snd (CSR_TLBRPRMD_PIE H) = 1"
      "field_ok (CSR_GSTAT_VM H)" "field_ok (CSR_GSTAT_PVM H)"
      "snd (CSR_GSTAT_VM H) = 1" "snd (CSR_GSTAT_PVM H) = 1"
    by (simp_all add: prmd_ok_def gstat_ok_def)
  have i: "\<And>v. FIELD_EX64 v (CSR_PRMD_PPLV H) AND mask 2 = FIELD_EX64 v (CSR_PRMD_PPLV H)"
      "\<And>v. FIELD_EX64 v (CSR_PRMD_PIE H) AND mask (Suc 0) = FIELD_EX64 v (CSR_PRMD_PIE H)"
      "\<And>v. FIELD_EX64 v (CSR_TLBRPRMD_PPLV H) AND mask 2
             = FIELD_EX64 v (CSR_TLBRPRMD_PPLV H)"
      "\<And>v. FIELD_EX64 v (CSR_TLBRPRMD_PIE H) AND mask (Suc 0)
             = FIELD_EX64 v (CSR_TLBRPRMD_PIE H)"
      "\<And>v. FIELD_EX64 v (CSR_GSTAT_PVM H) AND mask (Suc 0) = FIELD_EX64 v (CSR_GSTAT_PVM H)"
    using FIELD_EX64_idem[OF p(1)] FIELD_EX64_idem[OF p(2)] FIELD_EX64_idem[OF p(5)]
      FIELD_EX64_idem[OF p(6)] FIELD_EX64_idem[OF p(10)] p by simp_all
  show ?thesis
    using p plv ie ap l2 i
    by (simp add: helper_ertn_def Let_def split_def
          FIELD_EX64_DP64_same FIELD_EX64_DP64_other)
qed

text \<open>The instance at \<open>guest_env\<close>, which is in guest execution context.\<close>

theorem ertn_restores_mode_witness:
  "prmd_ok loongarch_cpu_csr_h \<and> gstat_ok loongarch_cpu_csr_h \<and>
   is_guest_execution_context loongarch_cpu_csr_h guest_env \<and>
   (let g = is_guest_execution_context loongarch_cpu_csr_h guest_env;
        refill = (FIELD_EX64 (CSR guest_env TLBRERA)
                    (CSR_TLBRERA_ISTLBR loongarch_cpu_csr_h) \<noteq> 0);
        bank = (if g then GCSR guest_env else CSR guest_env);
        env' = helper_ertn loongarch_cpu_csr_h guest_env
    in FIELD_EX64 (CSR env' CRMD) CSR_CRMD_PLV =
         (if refill then FIELD_EX64 (bank TLBRPRMD) (CSR_TLBRPRMD_PPLV loongarch_cpu_csr_h)
          else FIELD_EX64 (bank PRMD) (CSR_PRMD_PPLV loongarch_cpu_csr_h)) \<and>
       FIELD_EX64 (CSR env' CRMD) CSR_CRMD_IE =
         (if refill then FIELD_EX64 (bank TLBRPRMD) (CSR_TLBRPRMD_PIE loongarch_cpu_csr_h)
          else FIELD_EX64 (bank PRMD) (CSR_PRMD_PIE loongarch_cpu_csr_h)) \<and>
       (g \<longrightarrow> FIELD_EX64 (CSR_GSTAT env') (CSR_GSTAT_VM loongarch_cpu_csr_h) =
               FIELD_EX64 (CSR_GSTAT guest_env) (CSR_GSTAT_PVM loongarch_cpu_csr_h)))"
  using loongarch_header_ok(1,3) guest_env_guest_context
    ertn_restores_mode[OF loongarch_header_ok(1,3), of guest_env]
  by blast

section \<open>The TLB helpers\<close>

lemma matches_same_mode:
  "same_mode e env \<Longrightarrow> tlb_entry_matches_guest H e t = tlb_entry_matches_guest H env t"
  by (simp add: same_mode_def tlb_entry_matches_guest_def get_current_guest_id_def
        is_guest_mode_def has_lvz_capability_def get_guest_id_def)

lemma matches_guest_gid:
  "is_guest_mode H env \<Longrightarrow> tlb_entry_matches_guest H env t \<Longrightarrow>
   (ucast (FIELD_EX64 (tlb_misc t) TLB_MISC_GID) :: u8) = get_guest_id H env"
  by (simp add: tlb_entry_matches_guest_def get_current_guest_id_def is_guest_mode_def)

lemma tlb_invalidate_where_kept:
  assumes c: "\<And>e i t. cond e i t \<Longrightarrow> tlb_entry_matches_guest H e t"
    and g: "is_guest_mode H env"
  shows "same_mode e env \<Longrightarrow> other_guests_kept (get_guest_id H env) env e \<Longrightarrow>
         tlb_invalidate_where cond is e = Ret u e' \<Longrightarrow>
         other_guests_kept (get_guest_id H env) env e'"
proof (induction "is" arbitrary: e)
  case Nil
  then show ?case by simp
next
  case (Cons i rest)
  from Cons.prems(3) have it: "in_tlb i"
    by (simp split: if_splits)
  let ?t = "tlb e (nat i)"
  let ?e1 = "if cond e i ?t
             then e\<lparr>tlb := (tlb e)(nat i := ?t\<lparr>tlb_misc := FIELD_DP64 (tlb_misc ?t) TLB_MISC_E 0\<rparr>)\<rparr>
             else e"
  from Cons.prems(3) it have r: "tlb_invalidate_where cond rest ?e1 = Ret u e'"
    by (simp add: Let_def)
  have sm: "same_mode ?e1 env" using Cons.prems(1) by (simp add: same_mode_def)
  have k: "other_guests_kept (get_guest_id H env) env ?e1"
  proof (cases "cond e i ?t")
    case False
    then show ?thesis using Cons.prems(2) by simp
  next
    case True
    then have "tlb_entry_matches_guest H env ?t"
      using c matches_same_mode[OF Cons.prems(1)] by blast
    then have gid: "(ucast (FIELD_EX64 (tlb_misc ?t) TLB_MISC_GID) :: u8) = get_guest_id H env"
      using matches_guest_gid[OF g] by blast
    show ?thesis
      unfolding other_guests_kept_def
    proof (intro allI impI)
      fix j
      assume n: "(ucast (FIELD_EX64 (tlb_misc (tlb env j)) TLB_MISC_GID) :: u8) \<noteq> get_guest_id H env"
      then have ej: "tlb e j = tlb env j"
        using Cons.prems(2) by (simp add: other_guests_kept_def)
      with gid n have "j \<noteq> nat i" by auto
      with ej True show "tlb ?e1 j = tlb env j" by simp
    qed
  qed
  from Cons.IH[OF sm k r] show ?case .
qed

lemma tlb_invalidate_where_total:
  "\<forall>i\<in>set is. in_tlb i \<Longrightarrow> \<exists>e'. tlb_invalidate_where cond is e = Ret () e'"
  by (induction "is" arbitrary: e) (simp_all add: Let_def)

lemma whole_tlb_in_range: "\<forall>i\<in>set [0..LOONGARCH_TLB_MAX - 1]. in_tlb i"
  by (simp add: in_tlb_def)

lemma mtlb_in_range: "\<forall>i\<in>set [LOONGARCH_STLB..LOONGARCH_TLB_MAX - 1]. in_tlb i"
  by (simp add: in_tlb_def LOONGARCH_STLB_def)

lemma set_effective_tlb [simp]:
  "tlb (set_effective_csr_tlbidx H env v) = tlb env"
  "tlb (set_effective_csr_tlbehi H env v) = tlb env"
  "tlb (set_effective_csr_tlbelo0 H env v) = tlb env"
  "tlb (set_effective_csr_tlbelo1 H env v) = tlb env"
  "tlb (set_effective_csr_asid H env v) = tlb env"
  by (simp_all add: set_effective_csr_tlbidx_def set_effective_csr_tlbehi_def
        set_effective_csr_tlbelo0_def set_effective_csr_tlbelo1_def set_effective_csr_asid_def)

lemma tlbsrch_tlb: "tlb (helper_tlbsrch H env) = tlb env"
  by (simp add: helper_tlbsrch_def Let_def split: option.splits)

lemma tlbrd_tlb: "helper_tlbrd H env = Ret u env' \<Longrightarrow> tlb env' = tlb env"
  by (auto simp: helper_tlbrd_def tlbrd_invalid_def Let_def split: if_splits)

lemma fill_tlb_entry_written:
  "fill_tlb_entry H env index = Ret u env' \<Longrightarrow> only_entry_written (nat index) env env'"
  by (auto simp: fill_tlb_entry_def only_entry_written_def Let_def split_def split: if_splits)

lemma tlbwr_written:
  "helper_tlbwr H env = Ret u env' \<Longrightarrow>
   only_entry_written (nat (to_int (FIELD_EX64 (get_effective_csr_tlbidx H env) (CSR_TLBIDX_INDEX H)))) env env'"
  by (auto simp: helper_tlbwr_def obind_def invalidate_tlb_entry_def only_entry_written_def Let_def
        dest!: fill_tlb_entry_written split: if_splits outcome.splits)

lemma tlbfill_written:
  "helper_tlbfill H env rnd = Ret u env' \<Longrightarrow>
   only_entry_written (nat (tlbfill_index H env rnd)) env env'"
  by (auto simp: helper_tlbfill_def obind_def invalidate_tlb_entry_def Let_def
        dest!: fill_tlb_entry_written split: if_splits outcome.splits)

lemma tlb_misc_fields_ok:
  "field_ok TLB_MISC_E" "field_ok TLB_MISC_ASID" "field_ok TLB_MISC_VPPN"
  "field_ok TLB_MISC_PS" "field_ok TLB_MISC_GID"
  by (simp_all add: field_ok_def TLB_MISC_E_def TLB_MISC_ASID_def TLB_MISC_VPPN_def
        TLB_MISC_PS_def TLB_MISC_GID_def)

lemma tlb_misc_fields_apart:
  "fields_apart TLB_MISC_ASID TLB_MISC_E" "fields_apart TLB_MISC_GID TLB_MISC_E"
  "fields_apart TLB_MISC_E TLB_MISC_VPPN" "fields_apart TLB_MISC_ASID TLB_MISC_VPPN"
  "fields_apart TLB_MISC_GID TLB_MISC_VPPN" "fields_apart TLB_MISC_GID TLB_MISC_ASID"
  by (simp_all add: fields_apart_def TLB_MISC_E_def TLB_MISC_ASID_def TLB_MISC_VPPN_def
        TLB_MISC_PS_def TLB_MISC_GID_def)

lemma tlb_misc_lengths:
  "snd TLB_MISC_E = 1" "snd TLB_MISC_VPPN = 35" "snd TLB_MISC_GID = 8"
  by (simp_all add: TLB_MISC_E_def TLB_MISC_VPPN_def TLB_MISC_GID_def)

lemma ucast_gid_mask: "(ucast ((ucast (g :: u8) :: u64) AND mask 8) :: u8) = g"
  by (rule bit_word_eqI) (auto simp: bit_simps)

lemma tlb_update_keeps [simp]:
  "is_guest_mode H (env\<lparr>tlb := t\<rparr>) = is_guest_mode H env"
  "has_lvz_capability (env\<lparr>tlb := t\<rparr>) = has_lvz_capability env"
  "get_current_guest_id H (env\<lparr>tlb := t\<rparr>) = get_current_guest_id H env"
  "get_effective_csr_tlbidx H (env\<lparr>tlb := t\<rparr>) = get_effective_csr_tlbidx H env"
  "get_effective_csr_tlbehi H (env\<lparr>tlb := t\<rparr>) = get_effective_csr_tlbehi H env"
  "get_effective_csr_tlbelo0 H (env\<lparr>tlb := t\<rparr>) = get_effective_csr_tlbelo0 H env"
  "get_effective_csr_tlbelo1 H (env\<lparr>tlb := t\<rparr>) = get_effective_csr_tlbelo1 H env"
  "get_effective_csr_asid H (env\<lparr>tlb := t\<rparr>) = get_effective_csr_asid H env"
  by (simp_all add: is_guest_mode_def has_lvz_capability_def get_current_guest_id_def
        get_guest_id_def get_effective_csr_tlbidx_def get_effective_csr_tlbehi_def
        get_effective_csr_tlbelo0_def get_effective_csr_tlbelo1_def get_effective_csr_asid_def)

lemma fill_tlb_entry_only_tlb:
  "fill_tlb_entry H env index = Ret u env' \<Longrightarrow> env' = env\<lparr>tlb := tlb env'\<rparr>"
  by (auto simp: fill_tlb_entry_def Let_def split_def split: if_splits)

lemma fill_tlb_entry_plain:
  assumes "in_tlb index" "FIELD_EX64 (CSR env TLBRERA) (CSR_TLBRERA_ISTLBR H) = 0"
  shows "\<exists>env'. fill_tlb_entry H env index = Ret () env' \<and>
         tlb_entry0 (tlb env' (nat index)) = get_effective_csr_tlbelo0 H env \<and>
         tlb_entry1 (tlb env' (nat index)) = get_effective_csr_tlbelo1 H env \<and>
         FIELD_EX64 (tlb_misc (tlb env' (nat index))) TLB_MISC_E = 1 \<and>
         FIELD_EX64 (tlb_misc (tlb env' (nat index))) TLB_MISC_VPPN =
           (if is_la64 env
            then FIELD_EX64 (get_effective_csr_tlbehi H env) (CSR_TLBEHI_64_VPPN H)
            else FIELD_EX64 (get_effective_csr_tlbehi H env) (CSR_TLBEHI_32_VPPN H)) AND mask 35 \<and>
         (has_lvz_capability env \<longrightarrow>
            (ucast (FIELD_EX64 (tlb_misc (tlb env' (nat index))) TLB_MISC_GID) :: u8)
              = get_current_guest_id H env)"
  using assms tlb_misc_fields_ok tlb_misc_fields_apart tlb_misc_lengths
  by (simp add: fill_tlb_entry_def Let_def FIELD_EX64_DP64_same FIELD_EX64_DP64_other
        ucast_gid_mask)

lemma fill_tlb_entry_enabled:
  assumes "in_tlb index"
  shows "\<exists>env'. fill_tlb_entry H env index = Ret () env' \<and>
           FIELD_EX64 (tlb_misc (tlb env' (nat index))) TLB_MISC_E = 1"
  using assms tlb_misc_fields_ok tlb_misc_fields_apart tlb_misc_lengths
  by (simp add: fill_tlb_entry_def Let_def split_def FIELD_EX64_DP64_same FIELD_EX64_DP64_other)

lemma set_effective_get [simp]:
  "get_effective_csr_tlbehi H (set_effective_csr_tlbidx H env v) = get_effective_csr_tlbehi H env"
  "get_effective_csr_tlbelo0 H (set_effective_csr_tlbidx H env v) = get_effective_csr_tlbelo0 H env"
  "get_effective_csr_tlbelo1 H (set_effective_csr_tlbidx H env v) = get_effective_csr_tlbelo1 H env"
  "get_effective_csr_asid H (set_effective_csr_tlbidx H env v) = get_effective_csr_asid H env"
  "get_effective_csr_tlbehi H (set_effective_csr_tlbehi H env v) = v"
  "get_effective_csr_tlbelo0 H (set_effective_csr_tlbehi H env v) = get_effective_csr_tlbelo0 H env"
  "get_effective_csr_tlbelo1 H (set_effective_csr_tlbehi H env v) = get_effective_csr_tlbelo1 H env"
  "get_effective_csr_asid H (set_effective_csr_tlbehi H env v) = get_effective_csr_asid H env"
  "get_effective_csr_tlbehi H (set_effective_csr_tlbelo0 H env v) = get_effective_csr_tlbehi H env"
  "get_effective_csr_tlbelo0 H (set_effective_csr_tlbelo0 H env v) = v"
  "get_effective_csr_tlbelo1 H (set_effective_csr_tlbelo0 H env v) = get_effective_csr_tlbelo1 H env"
  "get_effective_csr_asid H (set_effective_csr_tlbelo0 H env v) = get_effective_csr_asid H env"
  "get_effective_csr_tlbehi H (set_effective_csr_tlbelo1 H env v) = get_effective_csr_tlbehi H env"
  "get_effective_csr_tlbelo0 H (set_effective_csr_tlbelo1 H env v) = get_effective_csr_tlbelo0 H env"
  "get_effective_csr_tlbelo1 H (set_effective_csr_tlbelo1 H env v) = v"
  "get_effective_csr_asid H (set_effective_csr_tlbelo1 H env v) = get_effective_csr_asid H env"
  by (simp_all add: is_guest_mode_def has_lvz_capability_def
        get_effective_csr_tlbehi_def get_effective_csr_tlbelo0_def get_effective_csr_tlbelo1_def
        get_effective_csr_asid_def set_effective_csr_tlbidx_def set_effective_csr_tlbehi_def
        set_effective_csr_tlbelo0_def set_effective_csr_tlbelo1_def)

text \<open>
  C7, amended. Let the effective \<open>TLBIDX.INDEX\<close> be an index of the TLB array,
  \<open>TLBIDX.NE = 0\<close> and the host \<open>TLBRERA.ISTLBR = 0\<close>. Then \<^verbatim>\<open>tlbwr\<close> returns, leaves
  the mode and the effective \<open>TLBIDX\<close> as they were, and \<^verbatim>\<open>tlbrd\<close> after it returns
  with the effective \<open>TLBELO0\<close>, \<open>TLBELO1\<close> and \<open>ASID\<close> registers equal to those at the
  \<^verbatim>\<open>tlbwr\<close>, and the effective \<open>TLBEHI\<close> equal to the VPPN field it held (cut to the
  35 bits of the TLB word) moved back to bit 13: the bits outside that field read as 0.
\<close>

theorem tlbwr_tlbrd_roundtrip:
  assumes idx: "in_tlb (to_int (FIELD_EX64 (get_effective_csr_tlbidx H env) (CSR_TLBIDX_INDEX H)))"
    and ne: "FIELD_EX64 (get_effective_csr_tlbidx H env) (CSR_TLBIDX_NE H) = 0"
    and refill: "FIELD_EX64 (CSR env TLBRERA) (CSR_TLBRERA_ISTLBR H) = 0"
  shows "\<exists>env1 env2.
     helper_tlbwr H env = Ret () env1 \<and>
     is_guest_mode H env1 = is_guest_mode H env \<and>
     get_effective_csr_tlbidx H env1 = get_effective_csr_tlbidx H env \<and>
     helper_tlbrd H env1 = Ret () env2 \<and>
     get_effective_csr_tlbehi H env2 =
       push_bit 13
         ((if is_la64 env
           then FIELD_EX64 (get_effective_csr_tlbehi H env) (CSR_TLBEHI_64_VPPN H)
           else FIELD_EX64 (get_effective_csr_tlbehi H env) (CSR_TLBEHI_32_VPPN H)) AND mask 35) \<and>
     get_effective_csr_tlbelo0 H env2 = get_effective_csr_tlbelo0 H env \<and>
     get_effective_csr_tlbelo1 H env2 = get_effective_csr_tlbelo1 H env \<and>
     get_effective_csr_asid H env2 = get_effective_csr_asid H env"
proof -
  let ?i = "to_int (FIELD_EX64 (get_effective_csr_tlbidx H env) (CSR_TLBIDX_INDEX H))"
  from fill_tlb_entry_plain[OF idx refill] obtain env1 where
    f: "fill_tlb_entry H env ?i = Ret () env1"
    and lo: "tlb_entry0 (tlb env1 (nat ?i)) = get_effective_csr_tlbelo0 H env"
            "tlb_entry1 (tlb env1 (nat ?i)) = get_effective_csr_tlbelo1 H env"
    and e: "FIELD_EX64 (tlb_misc (tlb env1 (nat ?i))) TLB_MISC_E = 1"
    and v: "FIELD_EX64 (tlb_misc (tlb env1 (nat ?i))) TLB_MISC_VPPN =
           (if is_la64 env
            then FIELD_EX64 (get_effective_csr_tlbehi H env) (CSR_TLBEHI_64_VPPN H)
            else FIELD_EX64 (get_effective_csr_tlbehi H env) (CSR_TLBEHI_32_VPPN H)) AND mask 35"
    and g: "has_lvz_capability env \<longrightarrow>
            (ucast (FIELD_EX64 (tlb_misc (tlb env1 (nat ?i))) TLB_MISC_GID) :: u8)
              = get_current_guest_id H env"
    by blast
  from fill_tlb_entry_only_tlb[OF f] have eq: "env1 = env\<lparr>tlb := tlb env1\<rparr>" .
  have same: "is_guest_mode H env1 = is_guest_mode H env"
      "has_lvz_capability env1 = has_lvz_capability env"
      "get_current_guest_id H env1 = get_current_guest_id H env"
      "get_effective_csr_tlbidx H env1 = get_effective_csr_tlbidx H env"
      "get_effective_csr_tlbehi H env1 = get_effective_csr_tlbehi H env"
      "get_effective_csr_tlbelo0 H env1 = get_effective_csr_tlbelo0 H env"
      "get_effective_csr_tlbelo1 H env1 = get_effective_csr_tlbelo1 H env"
      "get_effective_csr_asid H env1 = get_effective_csr_asid H env"
    by (subst eq, simp)+
  have lt: "?i < LOONGARCH_TLB_MAX" using idx by (simp add: in_tlb_def)
  have w: "helper_tlbwr H env = Ret () env1"
    using idx ne f lt by (simp add: helper_tlbwr_def obind_def invalidate_tlb_entry_def Let_def)
  have mg: "tlb_entry_matches_guest H env1 (tlb env1 (nat ?i))"
    using g same by (simp add: tlb_entry_matches_guest_def)
  have r: "\<exists>env2. helper_tlbrd H env1 = Ret () env2 \<and>
     get_effective_csr_tlbehi H env2
       = push_bit 13 (FIELD_EX64 (tlb_misc (tlb env1 (nat ?i))) TLB_MISC_VPPN) \<and>
     get_effective_csr_tlbelo0 H env2 = get_effective_csr_tlbelo0 H env \<and>
     get_effective_csr_tlbelo1 H env2 = get_effective_csr_tlbelo1 H env \<and>
     get_effective_csr_asid H env2 = get_effective_csr_asid H env"
    using idx mg e lo same
    by (simp add: helper_tlbrd_def Let_def R_TLB_MISC_VPPN_SHIFT_def TLB_MISC_VPPN_def)
  from w r v same show ?thesis by auto
qed

lemma sint_small: "uint (w :: u32) < 2147483648 \<Longrightarrow> sint w = uint w"
proof -
  assume a: "uint w < 2147483648"
  have "- (2 ^ 31) \<le> (0 :: int)" by simp
  then have lo: "- (2 ^ 31) \<le> uint w" by (rule order_trans) (rule uint_ge_0)
  from a have hi: "uint w < 2 ^ 31" by simp
  from lo hi have "signed_take_bit 31 (uint w) = uint w"
    by (rule signed_take_bit_int_eq_self)
  then show ?thesis by (simp add: sint_uint)
qed

lemma to_int_small: "uint (v :: u64) < 2147483648 \<Longrightarrow> to_int v = uint v"
proof -
  assume a: "uint v < 2147483648"
  then have hi: "uint v < 2 ^ 32" by simp
  have "uint (ucast v :: u32) = take_bit 32 (uint v)"
    by (simp add: unsigned_ucast_eq)
  also have "\<dots> = uint v"
    using uint_ge_0 hi by (rule take_bit_int_eq_self)
  finally have u: "uint (ucast v :: u32) = uint v" .
  with a have "sint (ucast v :: u32) = uint (ucast v :: u32)"
    by (intro sint_small) simp
  with u show ?thesis by (simp add: to_int_def)
qed

lemma low_byte_le: "uint ((x :: u64) AND 0xff) \<le> 255"
proof -
  have "x AND 0xff \<le> 0xff" by (rule word_and_le1)
  then show ?thesis by (simp add: word_le_def)
qed

lemma to_int_low_byte: "to_int (x AND 0xff) = uint (x AND 0xff)"
proof (rule to_int_small)
  show "uint (x AND 0xff) < 2147483648"
    using low_byte_le[of x] by linarith
qed

lemma random_way: "0 \<le> sint (get_random_tlb rnd 0 7) \<and> sint (get_random_tlb rnd 0 7) \<le> 7"
proof -
  have "rnd mod 8 < 8" by (simp add: word_mod_less_divisor)
  then have u: "uint (rnd mod 8) < 8" by (simp add: word_less_def)
  then have "uint (rnd mod 8) < 2147483648" by linarith
  then have "sint (rnd mod 8) = uint (rnd mod 8)" by (rule sint_small)
  with u show ?thesis by (simp add: get_random_tlb_def)
qed

lemma random_mtlb:
  "LOONGARCH_STLB \<le> sint (get_random_tlb rnd (word_of_int LOONGARCH_STLB)
                             (word_of_int (LOONGARCH_TLB_MAX - 1))) \<and>
   sint (get_random_tlb rnd (word_of_int LOONGARCH_STLB) (word_of_int (LOONGARCH_TLB_MAX - 1)))
     \<le> LOONGARCH_TLB_MAX - 1"
proof -
  have "rnd mod 64 < 64" by (simp add: word_mod_less_divisor)
  then have u: "uint (rnd mod 64) < 64" by (simp add: word_less_def)
  have n: "0 \<le> uint (rnd mod 64)" by (rule uint_ge_0)
  have "uint (rnd mod 64 + 2048) = (uint (rnd mod 64) + 2048) mod 2 ^ 32"
    by (simp add: uint_word_ariths)
  also have "\<dots> = uint (rnd mod 64) + 2048"
    using u n by (intro mod_pos_pos_trivial) simp_all
  finally have a: "uint (rnd mod 64 + 2048) = uint (rnd mod 64) + 2048" .
  with u have "uint (rnd mod 64 + 2048) < 2147483648" by linarith
  then have "sint (rnd mod 64 + 2048) = uint (rnd mod 64 + 2048)" by (rule sint_small)
  with u a n show ?thesis
    by (simp add: get_random_tlb_def LOONGARCH_TLB_MAX_def LOONGARCH_STLB_def LOONGARCH_MTLB_def)
qed

lemma stlb_index_bounds:
  "0 \<le> s \<Longrightarrow> s \<le> 7 \<Longrightarrow> 0 \<le> b \<Longrightarrow> b \<le> 255 \<Longrightarrow> in_tlb (s * 256 + b)"
  by (simp add: in_tlb_def LOONGARCH_TLB_MAX_def LOONGARCH_STLB_def LOONGARCH_MTLB_def)

lemma tlbfill_index_in_tlb: "in_tlb (tlbfill_index H env rnd)"
proof -
  have m: "in_tlb (sint (get_random_tlb rnd (word_of_int LOONGARCH_STLB)
                     (word_of_int (LOONGARCH_TLB_MAX - 1))))"
    using random_mtlb[of rnd]
    by (simp add: in_tlb_def LOONGARCH_TLB_MAX_def LOONGARCH_STLB_def LOONGARCH_MTLB_def)
  have s: "\<And>x. in_tlb (sint (get_random_tlb rnd 0 7) * 256 + to_int (x AND 0xff))"
    using random_way[of rnd] low_byte_le
    by (intro stlb_index_bounds) (simp_all add: to_int_low_byte)
  show ?thesis
    using m s by (simp add: tlbfill_index_def Let_def split_def)
qed

text \<open>
  C8, amended. For every CPU state and every value \<open>rnd\<close> drawn from the guest-random
  source, \<^verbatim>\<open>tlbfill\<close> returns, writes exactly one entry and enables it. With the host
  \<open>TLBRERA.ISTLBR\<close> clear the page size is the effective \<open>TLBIDX.PS\<close> and the VPN comes
  from the effective \<open>TLBEHI\<close>; with it set both come from the host \<open>TLBREHI\<close>. If
  that page size equals \<open>STLBPS.PS\<close> the index written is \<open>way * 256 + (VPN & 0xff)\<close>
  for a way in \<open>[0, 7]\<close>; otherwise it is an MTLB index in \<open>[2048, 2111]\<close>.
\<close>

theorem tlbfill_index_placement:
  "let refill = (FIELD_EX64 (CSR env TLBRERA) (CSR_TLBRERA_ISTLBR H) \<noteq> 0);
       entryhi = (if refill then CSR env TLBREHI else get_effective_csr_tlbehi H env);
       pagesize = (if refill then ucast (FIELD_EX64 (CSR env TLBREHI) (CSR_TLBREHI_PS H))
                   else ucast (FIELD_EX64 (get_effective_csr_tlbidx H env) (CSR_TLBIDX_PS H))
                   :: u16);
       stlb_ps = (ucast (FIELD_EX64 (CSR env STLBPS) (CSR_STLBPS_PS H)) :: u16);
       vpn = shr64 (entryhi AND NOT (MAKE_64BIT_MASK 0 (fst (CSR_TLBEHI_64_VPPN H))))
               (uint stlb_ps + 1)
   in \<exists>index env'.
        helper_tlbfill H env rnd = Ret () env' \<and>
        only_entry_written (nat index) env env' \<and>
        FIELD_EX64 (tlb_misc (tlb env' (nat index))) TLB_MISC_E = 1 \<and>
        (if pagesize = stlb_ps
         then \<exists>way. 0 \<le> way \<and> way \<le> 7 \<and> index = way * 256 + uint (vpn AND 0xff)
         else LOONGARCH_STLB \<le> index \<and> index \<le> LOONGARCH_TLB_MAX - 1)"
proof -
  let ?index = "tlbfill_index H env rnd"
  from fill_tlb_entry_enabled[OF tlbfill_index_in_tlb] obtain env' where
    f: "fill_tlb_entry H env ?index = Ret () env'"
    and e: "FIELD_EX64 (tlb_misc (tlb env' (nat ?index))) TLB_MISC_E = 1"
    by blast
  have h: "helper_tlbfill H env rnd = Ret () env'"
    using f tlbfill_index_in_tlb[of H env rnd]
    by (simp add: helper_tlbfill_def obind_def invalidate_tlb_entry_def Let_def)
  have w: "only_entry_written (nat ?index) env env'"
    using f by (rule fill_tlb_entry_written)
  show ?thesis
    unfolding Let_def
  proof (intro exI[of _ ?index] exI[of _ env'] conjI h w e)
    show "if (if FIELD_EX64 (CSR env TLBRERA) (CSR_TLBRERA_ISTLBR H) \<noteq> 0
              then ucast (FIELD_EX64 (CSR env TLBREHI) (CSR_TLBREHI_PS H))
              else (ucast (FIELD_EX64 (get_effective_csr_tlbidx H env) (CSR_TLBIDX_PS H)) :: u16))
             = ucast (FIELD_EX64 (CSR env STLBPS) (CSR_STLBPS_PS H))
          then \<exists>way\<ge>0. way \<le> 7 \<and> ?index = way * 256 +
                 uint (shr64 ((if FIELD_EX64 (CSR env TLBRERA) (CSR_TLBRERA_ISTLBR H) \<noteq> 0
                               then CSR env TLBREHI else get_effective_csr_tlbehi H env) AND
                              NOT (MAKE_64BIT_MASK 0 (fst (CSR_TLBEHI_64_VPPN H))))
                         (uint (ucast (FIELD_EX64 (CSR env STLBPS) (CSR_STLBPS_PS H)) :: u16) + 1)
                       AND 0xff)
          else LOONGARCH_STLB \<le> ?index \<and> ?index \<le> LOONGARCH_TLB_MAX - 1"
      using random_way[of rnd] random_mtlb[of rnd]
      by (auto simp: tlbfill_index_def Let_def to_int_low_byte)
  qed
qed

lemma other_guests_kept_refl: "other_guests_kept g env env"
  by (simp add: other_guests_kept_def)

lemma same_mode_refl: "same_mode env env"
  by (simp add: same_mode_def)

lemma tlbclr_cond_matches: "tlbclr_cond H a e i t \<Longrightarrow> tlb_entry_matches_guest H e t"
  by (simp add: tlbclr_cond_def split: if_splits)

lemma invalidate_loop_frame:
  assumes r: "tlb_invalidate_where cond is env = Ret u env'"
    and g: "is_guest_mode H env"
    and c: "\<And>e i t. cond e i t \<Longrightarrow> tlb_entry_matches_guest H e t"
  shows "other_guests_kept (get_guest_id H env) env env'"
proof (rule tlb_invalidate_where_kept[where cond = cond and e = env])
  show "\<And>e i t. cond e i t \<Longrightarrow> tlb_entry_matches_guest H e t" by (rule c)
  show "is_guest_mode H env" by (rule g)
  show "same_mode env env" by (rule same_mode_refl)
  show "other_guests_kept (get_guest_id H env) env env" by (rule other_guests_kept_refl)
  show "tlb_invalidate_where cond is env = Ret u env'" by (rule r)
qed

lemma invalidate_all_frame:
  assumes g: "is_guest_mode H env"
    and c: "\<And>e i t. cond e i t \<Longrightarrow> tlb_entry_matches_guest H e t"
  shows "\<exists>env'. tlb_invalidate_where cond [0..LOONGARCH_TLB_MAX - 1] env = Ret () env' \<and>
           other_guests_kept (get_guest_id H env) env env'"
proof -
  from tlb_invalidate_where_total[OF whole_tlb_in_range] obtain env' where
    r: "tlb_invalidate_where cond [0..LOONGARCH_TLB_MAX - 1] env = Ret () env'" by blast
  have "other_guests_kept (get_guest_id H env) env env'"
    using r g by (rule invalidate_loop_frame) (rule c)
  with r show ?thesis by blast
qed

lemma tlbclr_frame:
  assumes g: "is_guest_mode H env" and r: "helper_tlbclr H env = Ret u env'"
  shows "other_guests_kept (get_guest_id H env) env env'"
proof -
  have "?thesis"
    if "tlb_invalidate_where
          (tlbclr_cond H (ucast (FIELD_EX64 (get_effective_csr_asid H env) (CSR_ASID_ASID H))))
          is env = Ret u env'" for "is"
    using that g by (rule invalidate_loop_frame) (rule tlbclr_cond_matches)
  with r other_guests_kept_refl show ?thesis
    by (auto simp: helper_tlbclr_def Let_def split: if_splits)
qed

lemma tlbflush_frame:
  assumes g: "is_guest_mode H env" and r: "helper_tlbflush H env = Ret u env'"
  shows "other_guests_kept (get_guest_id H env) env env'"
proof -
  have "?thesis"
    if "tlb_invalidate_where (\<lambda>e i t. tlb_entry_matches_guest H e t) is env = Ret u env'"
    for "is"
    using that g by (rule invalidate_loop_frame)
  with r other_guests_kept_refl show ?thesis
    by (auto simp: helper_tlbflush_def Let_def split: if_splits)
qed

text \<open>
  C1, amended. In guest mode with current guest id \<open>g\<close>: \<^verbatim>\<open>tlbsrch\<close> and \<^verbatim>\<open>tlbrd\<close>
  leave the whole TLB array as it is; \<^verbatim>\<open>tlbclr\<close>, \<^verbatim>\<open>tlbflush\<close> and every
  \<^verbatim>\<open>invtlb_*\<close> variant leave every entry whose GID tag differs from \<open>g\<close> identical in
  all three words (the \<^verbatim>\<open>invtlb_*\<close> variants always return); \<^verbatim>\<open>tlbwr\<close> and
  \<^verbatim>\<open>tlbfill\<close> leave every entry other than the one at the index they write identical.
\<close>

theorem tlb_helpers_frame:
  assumes g: "is_guest_mode H env"
  shows "tlb (helper_tlbsrch H env) = tlb env \<and>
    (\<forall>env'. helper_tlbrd H env = Ret () env' \<longrightarrow> tlb env' = tlb env) \<and>
    (\<forall>env'. helper_tlbclr H env = Ret () env' \<longrightarrow>
       other_guests_kept (get_guest_id H env) env env') \<and>
    (\<forall>env'. helper_tlbflush H env = Ret () env' \<longrightarrow>
       other_guests_kept (get_guest_id H env) env env') \<and>
    (\<exists>env'. helper_invtlb_all H env = Ret () env' \<and>
       other_guests_kept (get_guest_id H env) env env') \<and>
    (\<forall>gbit. \<exists>env'. helper_invtlb_all_g H env gbit = Ret () env' \<and>
       other_guests_kept (get_guest_id H env) env env') \<and>
    (\<forall>info. \<exists>env'. helper_invtlb_all_asid H env info = Ret () env' \<and>
       other_guests_kept (get_guest_id H env) env env') \<and>
    (\<forall>info addr. \<exists>env'. helper_invtlb_page_asid H env info addr = Ret () env' \<and>
       other_guests_kept (get_guest_id H env) env env') \<and>
    (\<forall>info addr. \<exists>env'. helper_invtlb_page_asid_or_g H env info addr = Ret () env' \<and>
       other_guests_kept (get_guest_id H env) env env') \<and>
    (\<forall>env'. helper_tlbwr H env = Ret () env' \<longrightarrow>
       only_entry_written
         (nat (to_int (FIELD_EX64 (get_effective_csr_tlbidx H env) (CSR_TLBIDX_INDEX H))))
         env env') \<and>
    (\<forall>rnd env'. helper_tlbfill H env rnd = Ret () env' \<longrightarrow>
       only_entry_written (nat (tlbfill_index H env rnd)) env env')"
proof (intro conjI allI impI)
  show "tlb (helper_tlbsrch H env) = tlb env" by (rule tlbsrch_tlb)
next
  fix env' assume "helper_tlbrd H env = Ret () env'"
  then show "tlb env' = tlb env" by (rule tlbrd_tlb)
next
  fix env' assume "helper_tlbclr H env = Ret () env'"
  then show "other_guests_kept (get_guest_id H env) env env'" by (rule tlbclr_frame[OF g])
next
  fix env' assume "helper_tlbflush H env = Ret () env'"
  then show "other_guests_kept (get_guest_id H env) env env'" by (rule tlbflush_frame[OF g])
next
  show "\<exists>env'. helper_invtlb_all H env = Ret () env' \<and>
          other_guests_kept (get_guest_id H env) env env'"
    unfolding helper_invtlb_all_def by (rule invalidate_all_frame[OF g]) simp
next
  fix gbit
  show "\<exists>env'. helper_invtlb_all_g H env gbit = Ret () env' \<and>
          other_guests_kept (get_guest_id H env) env env'"
    unfolding helper_invtlb_all_g_def by (rule invalidate_all_frame[OF g]) (simp add: Let_def)
next
  fix info
  show "\<exists>env'. helper_invtlb_all_asid H env info = Ret () env' \<and>
          other_guests_kept (get_guest_id H env) env env'"
    unfolding helper_invtlb_all_asid_def Let_def
    by (rule invalidate_all_frame[OF g]) simp
next
  fix info addr
  show "\<exists>env'. helper_invtlb_page_asid H env info addr = Ret () env' \<and>
          other_guests_kept (get_guest_id H env) env env'"
    unfolding helper_invtlb_page_asid_def Let_def
    by (rule invalidate_all_frame[OF g]) (simp split: if_splits)
next
  fix info addr
  show "\<exists>env'. helper_invtlb_page_asid_or_g H env info addr = Ret () env' \<and>
          other_guests_kept (get_guest_id H env) env env'"
    unfolding helper_invtlb_page_asid_or_g_def Let_def
    by (rule invalidate_all_frame[OF g]) (simp split: if_splits)
next
  fix env' assume "helper_tlbwr H env = Ret () env'"
  then show "only_entry_written
         (nat (to_int (FIELD_EX64 (get_effective_csr_tlbidx H env) (CSR_TLBIDX_INDEX H))))
         env env'" by (rule tlbwr_written)
next
  fix rnd env' assume "helper_tlbfill H env rnd = Ret () env'"
  then show "only_entry_written (nat (tlbfill_index H env rnd)) env env'"
    by (rule tlbfill_written)
qed

section \<open>The TLB helpers on concrete states\<close>

lemmas tlb_eval = helper_tlbwr_def helper_tlbrd_def helper_tlbfill_def tlbfill_index_def
  fill_tlb_entry_def invalidate_tlb_entry_def obind_def in_tlb_def to_int_def
  get_effective_csr_tlbidx_def get_effective_csr_tlbehi_def get_effective_csr_tlbelo0_def
  get_effective_csr_tlbelo1_def get_effective_csr_asid_def get_current_guest_id_def
  set_effective_csr_tlbidx_def set_effective_csr_tlbehi_def set_effective_csr_tlbelo0_def
  set_effective_csr_tlbelo1_def set_effective_csr_asid_def tlb_entry_matches_guest_def
  is_la64_def CPUCFG1_ARCH_def CPUCFG1_ARCH_LA64_def
  TLB_MISC_E_def TLB_MISC_ASID_def TLB_MISC_VPPN_def TLB_MISC_PS_def TLB_MISC_GID_def
  LOONGARCH_TLB_MAX_def LOONGARCH_STLB_def LOONGARCH_MTLB_def R_TLB_MISC_VPPN_SHIFT_def
  get_random_tlb_def shr64_def MAKE_64BIT_MASK_def

text \<open>
  C1 as stated fails for \<^verbatim>\<open>tlbwr\<close>: guest 3 writes index 5, where an entry of guest 2
  lies; the entry is replaced by one tagged with guest 3.
\<close>

theorem tlbwr_overwrites_other_guest:
  "is_guest_mode loongarch_cpu_csr_h other_guest_entry_env \<and>
   get_guest_id loongarch_cpu_csr_h other_guest_entry_env = 3 \<and>
   (ucast (FIELD_EX64 (tlb_misc (tlb other_guest_entry_env 5)) TLB_MISC_GID) :: u8) = 2 \<and>
   helper_tlbwr loongarch_cpu_csr_h other_guest_entry_env
     = Ret () (other_guest_entry_env\<lparr>tlb := (tlb other_guest_entry_env)(5 :=
                 \<lparr>tlb_misc = 0xC0000000000001, tlb_entry0 = 0, tlb_entry1 = 0\<rparr>)\<rparr>) \<and>
   tlb (other_guest_entry_env\<lparr>tlb := (tlb other_guest_entry_env)(5 :=
                 \<lparr>tlb_misc = 0xC0000000000001, tlb_entry0 = 0, tlb_entry1 = 0\<rparr>)\<rparr>) 5
     \<noteq> tlb other_guest_entry_env 5"
  by (simp add: other_guest_entry_env_def tlb_eval mode_eval state_eval field_eval)

theorem tlb_helpers_frame_witness:
  "is_guest_mode loongarch_cpu_csr_h other_guest_entry_env \<and>
   tlb (helper_tlbsrch loongarch_cpu_csr_h other_guest_entry_env) = tlb other_guest_entry_env \<and>
   (\<exists>env'. helper_invtlb_all loongarch_cpu_csr_h other_guest_entry_env = Ret () env' \<and>
      other_guests_kept (get_guest_id loongarch_cpu_csr_h other_guest_entry_env)
        other_guest_entry_env env')"
proof -
  have g: "is_guest_mode loongarch_cpu_csr_h other_guest_entry_env"
    by (simp add: other_guest_entry_env_def mode_eval state_eval field_eval)
  from tlb_helpers_frame[OF g] g show ?thesis by blast
qed

text \<open>
  C7 as stated fails inside a TLB refill: with \<open>TLBRERA.ISTLBR = 1\<close>, \<^verbatim>\<open>tlbwr\<close> fills
  entry 3 from \<open>TLBRELO0 = 7\<close>, and \<^verbatim>\<open>tlbrd\<close> then puts 7 in \<open>TLBELO0\<close>, which held 5
  at the \<^verbatim>\<open>tlbwr\<close>.
\<close>

theorem tlbwr_tlbrd_refill_mode:
  "in_tlb (to_int (FIELD_EX64 (get_effective_csr_tlbidx loongarch_cpu_csr_h refill_mode_env)
                     (CSR_TLBIDX_INDEX loongarch_cpu_csr_h))) \<and>
   FIELD_EX64 (get_effective_csr_tlbidx loongarch_cpu_csr_h refill_mode_env)
     (CSR_TLBIDX_NE loongarch_cpu_csr_h) = 0 \<and>
   helper_tlbwr loongarch_cpu_csr_h refill_mode_env
     = Ret () (refill_mode_env\<lparr>tlb := (tlb refill_mode_env)(3 :=
                 \<lparr>tlb_misc = 1, tlb_entry0 = 7, tlb_entry1 = 0\<rparr>)\<rparr>) \<and>
   helper_tlbrd loongarch_cpu_csr_h
       (refill_mode_env\<lparr>tlb := (tlb refill_mode_env)(3 :=
                 \<lparr>tlb_misc = 1, tlb_entry0 = 7, tlb_entry1 = 0\<rparr>)\<rparr>)
     = Ret () (refill_mode_env\<lparr>
                 CSR := (CSR refill_mode_env)(TLBELO0 := 7),
                 tlb := (tlb refill_mode_env)(3 :=
                   \<lparr>tlb_misc = 1, tlb_entry0 = 7, tlb_entry1 = 0\<rparr>)\<rparr>) \<and>
   get_effective_csr_tlbelo0 loongarch_cpu_csr_h refill_mode_env = 5 \<and>
   get_effective_csr_tlbelo0 loongarch_cpu_csr_h
       (refill_mode_env\<lparr>
                 CSR := (CSR refill_mode_env)(TLBELO0 := 7),
                 tlb := (tlb refill_mode_env)(3 :=
                   \<lparr>tlb_misc = 1, tlb_entry0 = 7, tlb_entry1 = 0\<rparr>)\<rparr>) = 7"
  by (simp add: refill_mode_env_def tlb_eval mode_eval state_eval field_eval fun_eq_iff)

theorem tlbwr_tlbrd_roundtrip_witness:
  "in_tlb (to_int (FIELD_EX64 (get_effective_csr_tlbidx loongarch_cpu_csr_h guest_write_env)
                     (CSR_TLBIDX_INDEX loongarch_cpu_csr_h))) \<and>
   FIELD_EX64 (get_effective_csr_tlbidx loongarch_cpu_csr_h guest_write_env)
     (CSR_TLBIDX_NE loongarch_cpu_csr_h) = 0 \<and>
   FIELD_EX64 (CSR guest_write_env TLBRERA) (CSR_TLBRERA_ISTLBR loongarch_cpu_csr_h) = 0 \<and>
   (\<exists>env1 env2.
      helper_tlbwr loongarch_cpu_csr_h guest_write_env = Ret () env1 \<and>
      helper_tlbrd loongarch_cpu_csr_h env1 = Ret () env2 \<and>
      get_effective_csr_tlbelo0 loongarch_cpu_csr_h env2
        = get_effective_csr_tlbelo0 loongarch_cpu_csr_h guest_write_env \<and>
      get_effective_csr_tlbelo1 loongarch_cpu_csr_h env2
        = get_effective_csr_tlbelo1 loongarch_cpu_csr_h guest_write_env \<and>
      get_effective_csr_asid loongarch_cpu_csr_h env2
        = get_effective_csr_asid loongarch_cpu_csr_h guest_write_env)"
proof -
  have h1: "in_tlb (to_int (FIELD_EX64
              (get_effective_csr_tlbidx loongarch_cpu_csr_h guest_write_env)
              (CSR_TLBIDX_INDEX loongarch_cpu_csr_h)))"
    by (simp add: guest_write_env_def tlb_eval mode_eval state_eval field_eval)
  have h2: "FIELD_EX64 (get_effective_csr_tlbidx loongarch_cpu_csr_h guest_write_env)
              (CSR_TLBIDX_NE loongarch_cpu_csr_h) = 0"
    by (simp add: guest_write_env_def tlb_eval mode_eval state_eval field_eval)
  have h3: "FIELD_EX64 (CSR guest_write_env TLBRERA)
              (CSR_TLBRERA_ISTLBR loongarch_cpu_csr_h) = 0"
    by (simp add: guest_write_env_def tlb_eval mode_eval state_eval field_eval)
  from tlbwr_tlbrd_roundtrip[OF h1 h2 h3] h1 h2 h3 show ?thesis by blast
qed

text \<open>
  C8 as stated fails inside a TLB refill: the effective \<open>TLBIDX.PS\<close> equals
  \<open>STLBPS.PS\<close> (both 14) and the VPN of the effective \<open>TLBEHI\<close> has low byte 0, so the
  claim places the entry at a multiple of 256; with \<open>TLBRERA.ISTLBR = 1\<close> the helper takes
  the VPN from \<open>TLBREHI = 0x800E\<close> and, for the random value 0, writes index 1.
\<close>

theorem tlbfill_refill_mode:
  "(ucast (FIELD_EX64 (get_effective_csr_tlbidx loongarch_cpu_csr_h refill_fill_env)
            (CSR_TLBIDX_PS loongarch_cpu_csr_h)) :: u16)
     = ucast (FIELD_EX64 (CSR refill_fill_env STLBPS) (CSR_STLBPS_PS loongarch_cpu_csr_h)) \<and>
   shr64 (get_effective_csr_tlbehi loongarch_cpu_csr_h refill_fill_env
            AND NOT (MAKE_64BIT_MASK 0 13)) 15 AND 0xff = 0 \<and>
   helper_tlbfill loongarch_cpu_csr_h refill_fill_env 0
     = Ret () (refill_fill_env\<lparr>tlb := (tlb refill_fill_env)(1 :=
                 \<lparr>tlb_misc = 0x8001, tlb_entry0 = 0, tlb_entry1 = 0\<rparr>)\<rparr>) \<and>
   tlb (refill_fill_env\<lparr>tlb := (tlb refill_fill_env)(1 :=
                 \<lparr>tlb_misc = 0x8001, tlb_entry0 = 0, tlb_entry1 = 0\<rparr>)\<rparr>) 1
     \<noteq> tlb refill_fill_env 1 \<and>
   (1 :: nat) \<notin> {0, 256, 512, 768, 1024, 1280, 1536, 1792}"
  by (simp add: refill_fill_env_def tlb_eval mode_eval state_eval field_eval)

theorem tlbfill_index_placement_witness:
  "\<exists>index env'.
        helper_tlbfill loongarch_cpu_csr_h guest_write_env 5 = Ret () env' \<and>
        only_entry_written (nat index) guest_write_env env' \<and>
        FIELD_EX64 (tlb_misc (tlb env' (nat index))) TLB_MISC_E = 1"
  using tlbfill_index_placement[of guest_write_env loongarch_cpu_csr_h 5]
  unfolding Let_def by blast

text \<open>
  C10, evaluated. With \<open>TLBIDX.INDEX = 2112\<close>, \<^verbatim>\<open>helper_tlbwr\<close> skips the invalidate
  step and then indexes \<^verbatim>\<open>env->tlb[2112]\<close>, one entry past the array, in the fill
  step (\<open>NE = 0\<close>) as well as in the write that clears E (\<open>NE = 1\<close>). The guest form
  \<^verbatim>\<open>helper_gtlbwr\<close> returns at its bound check with the state unchanged.
\<close>

theorem tlbwr_index_2112:
  "FIELD_EX64 (get_effective_csr_tlbidx loongarch_cpu_csr_h index_2112_env)
     (CSR_TLBIDX_INDEX loongarch_cpu_csr_h) = 2112 \<and>
   helper_tlbwr loongarch_cpu_csr_h index_2112_env = OutOfBounds 2112 \<and>
   helper_tlbwr loongarch_cpu_csr_h
     (index_2112_env\<lparr>CSR := (CSR index_2112_env)(TLBIDX := 0x80000840)\<rparr>) = OutOfBounds 2112 \<and>
   helper_gtlbwr loongarch_cpu_csr_h (guest_env\<lparr>GCSR := (GCSR guest_env)(TLBIDX := 0x840)\<rparr>)
     = Ret () (guest_env\<lparr>GCSR := (GCSR guest_env)(TLBIDX := 0x840)\<rparr>)"
  by (simp add: index_2112_env_def helper_gtlbwr_def tlb_eval mode_eval state_eval field_eval)

section \<open>The CSR mediator\<close>

lemma csrwr_plain_readable: "r \<in> csrwr_plain \<Longrightarrow> r \<in> csrrd_plain \<or> r = PGD"
  by (auto simp: csrwr_plain_def csrrd_plain_def)

lemma special_readable: "ESTAT \<in> csrrd_plain" "ASID \<in> csrrd_plain" "TCFG \<in> csrrd_plain"
  "TICLR \<in> csrrd_plain" "PGD \<notin> csrrd_plain" "PGD \<in> csrwr_plain"
  by (simp_all add: csrrd_plain_def csrwr_plain_def)

lemma not_writable: "CPUID \<notin> csrwr_plain" "TVAL \<notin> csrwr_plain"
  "CPUID \<notin> SAVE ` A" "TVAL \<notin> SAVE ` A" "CPUID \<notin> DMW ` A" "TVAL \<notin> DMW ` A"
  "PGD \<notin> SAVE ` A" "PGD \<notin> DMW ` A"
  by (auto simp: csrwr_plain_def)

lemma array_regs_not_plain: "r \<in> SAVE ` A \<Longrightarrow> r \<notin> csrrd_plain \<and> r \<noteq> PGD \<and> r \<noteq> CPUID \<and> r \<noteq> TVAL"
   "r \<in> DMW ` A \<Longrightarrow> r \<notin> csrrd_plain \<and> r \<noteq> PGD \<and> r \<noteq> CPUID \<and> r \<noteq> TVAL \<and> r \<notin> SAVE ` B"
  by (auto simp: csrrd_plain_def)

lemma deposit64_same: "l \<le> 64 \<Longrightarrow> deposit64 v 0 l v = v"
  by (rule bit_word_eqI) (auto simp: deposit64_def Let_def ones_shift bit_simps)

text \<open>What a write that returns has done.\<close>

lemma csrwr_Ret:
  assumes "helper_csrwr_with_lvz H X env val csr = Ret w env'"
  shows "\<exists>r. csr_label H csr = Some r \<and>
     (r = ESTAT \<and> env' = env\<lparr>CSR := (CSR env)(ESTAT := deposit64 (CSR env ESTAT) 0 2 val)\<rparr> \<or>
      r = ASID \<and> env' = env\<lparr>CSR := (CSR env)(ASID := deposit64 (CSR env ASID) 0 10 val)\<rparr> \<or>
      r = TCFG \<or> r = TICLR \<or>
      r \<notin> {ESTAT, ASID, TCFG, TICLR} \<and>
        (r \<in> csrwr_plain \<or> r \<in> SAVE ` {0..15} \<or> r \<in> DMW ` {0..3}) \<and>
        env' = env\<lparr>CSR := (CSR env)(r := val)\<rparr>)"
  using assms
  by (auto simp: helper_csrwr_with_lvz_def trigger_csr_vm_exit_def do_raise_exception_def
        helper_csrwr_estat_def helper_csrwr_asid_def Let_def
        split: if_splits option.splits)


lemma csrrd_Ret_env:
  "helper_csrrd_with_lvz H X env csr = Ret v env1 \<Longrightarrow>
   env1 = env \<or> csr_label H csr = Some CPUID"
  by (auto simp: helper_csrrd_with_lvz_def trigger_csr_vm_exit_def do_raise_exception_def
        helper_csrrd_cpuid_def helper_csrrd_tval_def Let_def
        split: if_splits option.splits)

lemma csrrd_writable:
  assumes l: "csr_label H csr = Some r"
    and p: "check_csr_access_permission H env csr False"
    and w: "r \<in> csrwr_plain \<or> r \<in> SAVE ` {0..15} \<or> r \<in> DMW ` {0..3} \<or>
            r \<in> {ESTAT, ASID, TCFG, TICLR}"
  shows "helper_csrrd_with_lvz H X env csr
           = Ret (if r = PGD then helper_csrrd_pgd env else CSR env r) env"
proof -
  consider (pgd) "r = PGD" | (plain) "r \<in> csrrd_plain" "r \<noteq> PGD" "r \<noteq> CPUID" "r \<noteq> TVAL"
    | (save) "r \<in> SAVE ` {0..15}" | (dmw) "r \<in> DMW ` {0..3}"
    using w csrwr_plain_readable[of r] special_readable
    by (auto simp: csrrd_plain_def)
  then show ?thesis
  proof cases
    case pgd
    then show ?thesis
      using l p special_readable by (simp add: helper_csrrd_with_lvz_def Let_def)
  next
    case plain
    then show ?thesis
      using l p by (simp add: helper_csrrd_with_lvz_def Let_def)
  next
    case save
    then show ?thesis
      using l p array_regs_not_plain(1)[OF save]
      by (simp add: helper_csrrd_with_lvz_def Let_def)
  next
    case dmw
    then show ?thesis
      using l p array_regs_not_plain(2)[OF dmw, of "{0..15}"]
      by (simp add: helper_csrrd_with_lvz_def Let_def)
  qed
qed

lemma csrxchg_Ret:
  assumes "helper_csrxchg_with_lvz H X env rj rd csr = Ret old env'"
  shows "\<exists>w. helper_csrrd_with_lvz H X env csr = Ret old env \<and>
             helper_csrwr_with_lvz H X env ((old AND NOT rd) OR (rj AND rd)) csr = Ret w env'"
proof -
  from assms obtain env1 w where
    r: "helper_csrrd_with_lvz H X env csr = Ret old env1"
    and wr: "helper_csrwr_with_lvz H X env1 ((old AND NOT rd) OR (rj AND rd)) csr = Ret w env'"
    by (auto simp: helper_csrxchg_with_lvz_def obind_def Let_def trigger_csr_vm_exit_def
          do_raise_exception_def split: if_splits outcome.splits)
  from csrwr_Ret[OF wr] have "csr_label H csr \<noteq> Some CPUID"
    using not_writable by auto
  with csrrd_Ret_env[OF r] have "env1 = env" by simp
  with r wr show ?thesis by blast
qed


lemma csrrd_Ret_perm:
  "helper_csrrd_with_lvz H X env csr = Ret v e \<Longrightarrow> check_csr_access_permission H env csr False"
  by (auto simp: helper_csrrd_with_lvz_def trigger_csr_vm_exit_def do_raise_exception_def
        split: if_splits)

lemma perm_CSR_update [simp]:
  "check_csr_access_permission H (env\<lparr>CSR := c\<rparr>) csr w = check_csr_access_permission H env csr w"
proof -
  have a: "is_guest_mode H (env\<lparr>CSR := c\<rparr>) = is_guest_mode H env"
    by (simp add: is_guest_mode_def has_lvz_capability_def)
  have b: "has_lvz_capability (env\<lparr>CSR := c\<rparr>) = has_lvz_capability env"
    by (simp add: has_lvz_capability_def)
  have d: "CSR_GCFG (env\<lparr>CSR := c\<rparr>) = CSR_GCFG env"
    by simp
  show ?thesis
    unfolding check_csr_access_permission_def a b d ..
qed

lemma pgd_CSR_PGD_update [simp]:
  "helper_csrrd_pgd (env\<lparr>CSR := (CSR env)(PGD := v)\<rparr>) = helper_csrrd_pgd env"
  by (simp add: helper_csrrd_pgd_def)

lemma csrxchg_host:
  assumes x: "helper_csrxchg_with_lvz H X env rj rd csr = Ret old env'"
  shows "helper_csrrd_with_lvz H X env csr = Ret old env"
    and "csr_label H csr = Some r \<Longrightarrow> r \<notin> {ESTAT, ASID, TCFG, TICLR} \<Longrightarrow>
         CSR env' r = (old AND NOT rd) OR (rj AND rd)"
    and "rd = 0 \<Longrightarrow> csr_label H csr \<notin> {Some TCFG, Some TICLR} \<Longrightarrow>
         helper_csrrd_with_lvz H X env' csr = Ret old env' \<and>
         (csr_label H csr \<noteq> Some PGD \<longrightarrow> env' = env)"
proof -
  from csrxchg_Ret[OF x] obtain w where
    rd: "helper_csrrd_with_lvz H X env csr = Ret old env"
    and wr: "helper_csrwr_with_lvz H X env ((old AND NOT rd) OR (rj AND rd)) csr = Ret w env'"
    by blast
  show "helper_csrrd_with_lvz H X env csr = Ret old env" by (rule rd)
  from csrwr_Ret[OF wr] obtain q where
    l: "csr_label H csr = Some q"
    and c: "q = ESTAT \<and> env' = env\<lparr>CSR := (CSR env)(ESTAT :=
                deposit64 (CSR env ESTAT) 0 2 ((old AND NOT rd) OR (rj AND rd)))\<rparr> \<or>
            q = ASID \<and> env' = env\<lparr>CSR := (CSR env)(ASID :=
                deposit64 (CSR env ASID) 0 10 ((old AND NOT rd) OR (rj AND rd)))\<rparr> \<or>
            q = TCFG \<or> q = TICLR \<or>
            q \<notin> {ESTAT, ASID, TCFG, TICLR} \<and>
              (q \<in> csrwr_plain \<or> q \<in> SAVE ` {0..15} \<or> q \<in> DMW ` {0..3}) \<and>
              env' = env\<lparr>CSR := (CSR env)(q := (old AND NOT rd) OR (rj AND rd))\<rparr>"
    by blast
  show "CSR env' r = (old AND NOT rd) OR (rj AND rd)"
    if "csr_label H csr = Some r" "r \<notin> {ESTAT, ASID, TCFG, TICLR}"
    using that l c by auto
  show "helper_csrrd_with_lvz H X env' csr = Ret old env' \<and>
         (csr_label H csr \<noteq> Some PGD \<longrightarrow> env' = env)"
    if z: "rd = 0" and t: "csr_label H csr \<notin> {Some TCFG, Some TICLR}"
  proof -
    have p: "check_csr_access_permission H env csr False"
      using rd by (rule csrrd_Ret_perm)
    have wq: "q \<in> csrwr_plain \<or> q \<in> SAVE ` {0..15} \<or> q \<in> DMW ` {0..3} \<or>
              q \<in> {ESTAT, ASID, TCFG, TICLR}"
      using c by auto
    from csrrd_writable[OF l p wq] rd
    have old: "old = (if q = PGD then helper_csrrd_pgd env else CSR env q)" by simp
    have e: "env' = (if q = PGD then env\<lparr>CSR := (CSR env)(PGD := old)\<rparr> else env)"
      using c t l z old special_readable not_writable
      by (auto simp: deposit64_same)
    have p': "check_csr_access_permission H env' csr False"
      using p e by (simp split: if_splits)
    from csrrd_writable[OF l p' wq] e old
    have "helper_csrrd_with_lvz H X env' csr = Ret old env'"
      by (simp split: if_splits)
    with e l show ?thesis by auto
  qed
qed


lemma gcsrxchg_guest:
  assumes x: "helper_gcsrxchg H env rj rd csr = Ret old env'"
  shows "\<exists>r. get_guest_csr_ptr H csr = Some r \<and> old = GCSR env r \<and>
             env' = env\<lparr>GCSR := (GCSR env)(r := (old AND NOT rd) OR (rj AND rd))\<rparr>"
    and "rd = 0 \<Longrightarrow> env' = env"
    and "helper_gcsrrd H env csr = Ret v env1 \<Longrightarrow> v = old \<and> env1 = env"
proof -
  show a: "\<exists>r. get_guest_csr_ptr H csr = Some r \<and> old = GCSR env r \<and>
             env' = env\<lparr>GCSR := (GCSR env)(r := (old AND NOT rd) OR (rj AND rd))\<rparr>"
    using x
    by (auto simp: helper_gcsrxchg_def trigger_vm_exit_def do_raise_exception_def Let_def
          split: if_splits option.splits)
  show "env' = env" if "rd = 0"
    using a that by auto
  show "v = old \<and> env1 = env" if "helper_gcsrrd H env csr = Ret v env1"
    using a that
    by (auto simp: helper_gcsrrd_def trigger_vm_exit_def do_raise_exception_def
          split: if_splits option.splits)
qed

text \<open>
  What an exchange that returns has done. When the mediated exchange
  \<^verbatim>\<open>csrxchg(c, rj, rd)\<close> returns, the value it returns is the value \<^verbatim>\<open>csrrd(c)\<close>
  returns in the same state, and for every register other than ESTAT, ASID, TCFG and
  TICLR the value stored is \<open>(old & ~rd) | (rj & rd)\<close>. With \<open>rd = 0\<close> and a register
  other than TCFG and TICLR (whose writes go to the timer and interrupt collaborators),
  \<^verbatim>\<open>csrrd(c)\<close> afterwards still returns that value, and the CPU state is the one from
  before, except that an exchange on PGD stores the value read in \<open>CSR_PGD\<close>. The
  guest form \<^verbatim>\<open>gcsrxchg\<close>, when it returns, returns the guest register, stores
  \<open>(old & ~rd) | (rj & rd)\<close> in it, with \<open>rd = 0\<close> leaves the state unchanged, and
  where \<^verbatim>\<open>gcsrrd\<close> returns as well it returns the same value. This says nothing
  about the exchanges that do not return; the two lemmas after it do.
\<close>

lemma csr_exchange_returning:
  "(\<forall>old env'. helper_csrxchg_with_lvz H X env rj rd csr = Ret old env' \<longrightarrow>
      helper_csrrd_with_lvz H X env csr = Ret old env \<and>
      (\<forall>r. csr_label H csr = Some r \<and> r \<notin> {ESTAT, ASID, TCFG, TICLR} \<longrightarrow>
           CSR env' r = (old AND NOT rd) OR (rj AND rd)) \<and>
      (rd = 0 \<and> csr_label H csr \<notin> {Some TCFG, Some TICLR} \<longrightarrow>
           helper_csrrd_with_lvz H X env' csr = Ret old env' \<and>
           (csr_label H csr \<noteq> Some PGD \<longrightarrow> env' = env))) \<and>
   (\<forall>old env'. helper_gcsrxchg H env rj rd csr = Ret old env' \<longrightarrow>
      (\<exists>r. get_guest_csr_ptr H csr = Some r \<and> old = GCSR env r \<and>
           env' = env\<lparr>GCSR := (GCSR env)(r := (old AND NOT rd) OR (rj AND rd))\<rparr>) \<and>
      (rd = 0 \<longrightarrow> env' = env) \<and>
      (\<forall>v env1. helper_gcsrrd H env csr = Ret v env1 \<longrightarrow> v = old \<and> env1 = env))"
proof (intro conjI allI impI)
  fix old env' assume x: "helper_csrxchg_with_lvz H X env rj rd csr = Ret old env'"
  show "helper_csrrd_with_lvz H X env csr = Ret old env"
    using x by (rule csrxchg_host(1))
  show "CSR env' r = (old AND NOT rd) OR (rj AND rd)"
    if "csr_label H csr = Some r \<and> r \<notin> {ESTAT, ASID, TCFG, TICLR}" for r
    using csrxchg_host(2)[OF x] that by blast
  show "helper_csrrd_with_lvz H X env' csr = Ret old env'"
    if "rd = 0 \<and> csr_label H csr \<notin> {Some TCFG, Some TICLR}"
    using csrxchg_host(3)[OF x] that by blast
  show "env' = env"
    if "rd = 0 \<and> csr_label H csr \<notin> {Some TCFG, Some TICLR}" "csr_label H csr \<noteq> Some PGD"
    using csrxchg_host(3)[OF x] that by blast
next
  fix old env' assume x: "helper_gcsrxchg H env rj rd csr = Ret old env'"
  show "\<exists>r. get_guest_csr_ptr H csr = Some r \<and> old = GCSR env r \<and>
           env' = env\<lparr>GCSR := (GCSR env)(r := (old AND NOT rd) OR (rj AND rd))\<rparr>"
    using x by (rule gcsrxchg_guest(1))
  show "env' = env" if "rd = 0"
    using gcsrxchg_guest(2)[OF x] that by blast
  show "v = old" if "helper_gcsrrd H env csr = Ret v env1" for v env1
    using gcsrxchg_guest(3)[OF x] that by blast
  show "env1 = env" if "helper_gcsrrd H env csr = Ret v env1" for v env1
    using gcsrxchg_guest(3)[OF x] that by blast
qed

text \<open>
  The write switch of \<^verbatim>\<open>helper_csrwr_with_lvz\<close> has no case for CPUID, PRCFG1,
  PRCFG2, PRCFG3 and TVAL, which the read switch serves. An exchange always ends in that
  write, so on these five registers it returns in no state, under no header, whatever
  the mask. Outside guest mode, where the permission check grants every access, the
  read of a PRCFG register returns the register and the exchange raises the hypervisor
  exception.
\<close>

lemma csrxchg_read_only_never_returns:
  assumes l: "csr_label H csr = Some r"
    and r: "r \<in> {CPUID, PRCFG1, PRCFG2, PRCFG3, TVAL}"
  shows "helper_csrxchg_with_lvz H X env rj rd csr \<noteq> Ret old env'"
proof
  assume "helper_csrxchg_with_lvz H X env rj rd csr = Ret old env'"
  from csrxchg_Ret[OF this] obtain w where
    "helper_csrwr_with_lvz H X env ((old AND NOT rd) OR (rj AND rd)) csr = Ret w env'"
    by blast
  from csrwr_Ret[OF this] l
  have "r \<in> {ESTAT, ASID, TCFG, TICLR} \<or> r \<in> csrwr_plain \<or> r \<in> SAVE ` {0..15} \<or>
        r \<in> DMW ` {0..3}"
    by auto
  with r show False
    by (auto simp: csrwr_plain_def)
qed

lemma csrxchg_prcfg_outside_guest:
  assumes g: "\<not> is_guest_mode H env"
    and l: "csr_label H csr = Some r"
    and r: "r \<in> {PRCFG1, PRCFG2, PRCFG3}"
  shows "check_csr_access_permission H env csr True"
    and "helper_csrrd_with_lvz H X env csr = Ret (CSR env r) env"
    and "helper_csrxchg_with_lvz H X env rj rd csr
           = Raise EXCCODE_HVC (env\<lparr>CSR_GSTAT := FIELD_DP64 (CSR_GSTAT env) (CSR_GSTAT_VM H) 0\<rparr>)"
proof -
  show p: "check_csr_access_permission H env csr True"
    using g by (simp add: check_csr_access_permission_def)
  have q: "check_csr_access_permission H env csr False"
    using g by (simp add: check_csr_access_permission_def)
  have rp: "r \<in> csrrd_plain"
    using r by (auto simp: csrrd_plain_def)
  show rd: "helper_csrrd_with_lvz H X env csr = Ret (CSR env r) env"
    using g l q rp by (simp add: helper_csrrd_with_lvz_def Let_def)
  have nw: "r \<notin> {ESTAT, ASID, TCFG, TICLR}" "r \<notin> csrwr_plain" "r \<notin> SAVE ` {0..15}"
    "r \<notin> DMW ` {0..3}"
    using r by (auto simp: csrwr_plain_def)
  have wr: "helper_csrwr_with_lvz H X env v csr
              = Raise EXCCODE_HVC
                  (env\<lparr>CSR_GSTAT := FIELD_DP64 (CSR_GSTAT env) (CSR_GSTAT_VM H) 0\<rparr>)" for v
    using l p nw
    by (simp add: helper_csrwr_with_lvz_def trigger_csr_vm_exit_def do_raise_exception_def)
  show "helper_csrxchg_with_lvz H X env rj rd csr
          = Raise EXCCODE_HVC (env\<lparr>CSR_GSTAT := FIELD_DP64 (CSR_GSTAT env) (CSR_GSTAT_VM H) 0\<rparr>)"
    using p rd wr by (simp add: helper_csrxchg_with_lvz_def obind_def Let_def)
qed

lemmas csr_eval = helper_csrxchg_with_lvz_def helper_csrrd_with_lvz_def helper_csrwr_with_lvz_def
  check_csr_access_permission_def trigger_csr_vm_exit_def helper_csrrd_cpuid_def
  helper_csrrd_tval_def helper_csrrd_pgd_def helper_gcsrxchg_def helper_gcsrrd_def
  get_guest_csr_ptr_def trigger_vm_exit_def do_raise_exception_def obind_def
  loongarch_csr_label_def csrrd_plain_def csrwr_plain_def

text \<open>
  C9, evaluated. \<open>lvz_host_env\<close> is in host mode, where
  \<^verbatim>\<open>check_csr_access_permission\<close> grants every access. \<^verbatim>\<open>csrrd(PRCFG1)\<close> (register
  0x21) returns the register and leaves the state as it was. \<^verbatim>\<open>csrxchg(PRCFG1, v, 0)\<close>
  does not return that value: for every \<open>v\<close> it raises the hypervisor exception
  \<^verbatim>\<open>EXCCODE_HVC\<close>, because the write it ends in has no case for PRCFG1 and takes the
  "unknown CSR" exit. The same happens on PRCFG2 (0x22), PRCFG3 (0x23), TVAL (0x42) and
  CPUID (0x20); on CPUID the read that the exchange starts with has by then stored the
  CPU index in \<open>CSR_CPUID\<close>.
\<close>

theorem csrxchg_prcfg1_in_host:
  "\<not> is_guest_mode loongarch_cpu_csr_h lvz_host_env \<and>
   check_csr_access_permission loongarch_cpu_csr_h lvz_host_env 0x21 True \<and>
   helper_csrrd_with_lvz loongarch_cpu_csr_h X lvz_host_env 0x21 = Ret 0 lvz_host_env \<and>
   helper_csrxchg_with_lvz loongarch_cpu_csr_h X lvz_host_env v 0 0x21
     = Raise EXCCODE_HVC lvz_host_env \<and>
   helper_csrxchg_with_lvz loongarch_cpu_csr_h X lvz_host_env v 0 0x22
     = Raise EXCCODE_HVC lvz_host_env \<and>
   helper_csrxchg_with_lvz loongarch_cpu_csr_h X lvz_host_env v 0 0x23
     = Raise EXCCODE_HVC lvz_host_env \<and>
   helper_csrxchg_with_lvz loongarch_cpu_csr_h X lvz_host_env v 0 0x42
     = Raise EXCCODE_HVC lvz_host_env \<and>
   helper_csrxchg_with_lvz loongarch_cpu_csr_h X lvz_host_env v 0 0x20
     = Raise EXCCODE_HVC (lvz_host_env\<lparr>CSR := (CSR lvz_host_env)(CPUID := cpu_index X)\<rparr>)"
  by (simp add: csr_eval mode_eval state_eval field_eval fun_eq_iff image_iff)

end
